theory Spec2Isabelle
  imports Main "HOL-Library.Word"
begin

unbundle bit_operations_syntax

section \<open>Common types\<close>

text \<open>
  The Direct3D back ends are built for Windows only, where \<^verbatim>\<open>long\<close>, \<^verbatim>\<open>int\<close>,
  \<^verbatim>\<open>unsigned int\<close> and \<^verbatim>\<open>UINT\<close> are all 32 bits wide. Conversions between them
  keep the bit pattern, so each is a 32-bit word; \<^term>\<open>unat\<close> reads a word as the
  unsigned and \<^term>\<open>sint\<close> as the signed number.
\<close>

type_synonym UINT = "32 word"
type_synonym long = "32 word"

datatype error = runtime_error string | invalid_argument string

section \<open>D3D11ResourceFlags.cpp: flag translation\<close>

subsection \<open>Flag enumerations\<close>

text \<open>
  Modelled from the spec: the enumerations \<^verbatim>\<open>BindFlags\<close>, \<^verbatim>\<open>CPUAccessFlags\<close> and
  \<^verbatim>\<open>MiscFlags\<close> are declared in a header that is not among the sources. The spec
  gives them as bit-flag groups, BindFlags {VertexBuffer, IndexBuffer, ConstantBuffer,
  StreamOutputBuffer, SampleBuffer, RWStorageBuffer, ColorAttachment,
  DepthStencilAttachment, IndirectBuffer}, CPUAccessFlags {Read, Write} and MiscFlags
  {DynamicUsage}: one bit per member, numbered here in the order of the listing.
\<close>

definition VertexBuffer :: long where "VertexBuffer = push_bit 0 1"
definition IndexBuffer :: long where "IndexBuffer = push_bit 1 1"
definition ConstantBuffer :: long where "ConstantBuffer = push_bit 2 1"
definition StreamOutputBuffer :: long where "StreamOutputBuffer = push_bit 3 1"
definition SampleBuffer :: long where "SampleBuffer = push_bit 4 1"
definition RWStorageBuffer :: long where "RWStorageBuffer = push_bit 5 1"
definition ColorAttachment :: long where "ColorAttachment = push_bit 6 1"
definition DepthStencilAttachment :: long where "DepthStencilAttachment = push_bit 7 1"
definition IndirectBuffer :: long where "IndirectBuffer = push_bit 8 1"

definition CPUAccessFlags_Read :: long where "CPUAccessFlags_Read = push_bit 0 1"
definition CPUAccessFlags_Write :: long where "CPUAccessFlags_Write = push_bit 1 1"

definition DynamicUsage :: long where "DynamicUsage = push_bit 0 1"

text \<open>The native constants are those of the Direct3D 11 headers (d3d11.h).\<close>

definition D3D11_BIND_VERTEX_BUFFER :: UINT where "D3D11_BIND_VERTEX_BUFFER = 0x1"
definition D3D11_BIND_INDEX_BUFFER :: UINT where "D3D11_BIND_INDEX_BUFFER = 0x2"
definition D3D11_BIND_CONSTANT_BUFFER :: UINT where "D3D11_BIND_CONSTANT_BUFFER = 0x4"
definition D3D11_BIND_SHADER_RESOURCE :: UINT where "D3D11_BIND_SHADER_RESOURCE = 0x8"
definition D3D11_BIND_STREAM_OUTPUT :: UINT where "D3D11_BIND_STREAM_OUTPUT = 0x10"
definition D3D11_BIND_RENDER_TARGET :: UINT where "D3D11_BIND_RENDER_TARGET = 0x20"
definition D3D11_BIND_DEPTH_STENCIL :: UINT where "D3D11_BIND_DEPTH_STENCIL = 0x40"
definition D3D11_BIND_UNORDERED_ACCESS :: UINT where "D3D11_BIND_UNORDERED_ACCESS = 0x80"

definition D3D11_CPU_ACCESS_WRITE :: UINT where "D3D11_CPU_ACCESS_WRITE = 0x10000"
definition D3D11_CPU_ACCESS_READ :: UINT where "D3D11_CPU_ACCESS_READ = 0x20000"

definition D3D11_RESOURCE_MISC_GENERATE_MIPS :: UINT where
  "D3D11_RESOURCE_MISC_GENERATE_MIPS = 0x1"
definition D3D11_RESOURCE_MISC_TEXTURECUBE :: UINT where
  "D3D11_RESOURCE_MISC_TEXTURECUBE = 0x4"
definition D3D11_RESOURCE_MISC_DRAWINDIRECT_ARGS :: UINT where
  "D3D11_RESOURCE_MISC_DRAWINDIRECT_ARGS = 0x10"
definition D3D11_RESOURCE_MISC_BUFFER_ALLOW_RAW_VIEWS :: UINT where
  "D3D11_RESOURCE_MISC_BUFFER_ALLOW_RAW_VIEWS = 0x20"
definition D3D11_RESOURCE_MISC_BUFFER_STRUCTURED :: UINT where
  "D3D11_RESOURCE_MISC_BUFFER_STRUCTURED = 0x40"

datatype D3D11_USAGE =
  D3D11_USAGE_DEFAULT | D3D11_USAGE_IMMUTABLE | D3D11_USAGE_DYNAMIC | D3D11_USAGE_STAGING

subsection \<open>Descriptors\<close>

text \<open>
  The texture types the sources distinguish. The second \<^verbatim>\<open>switch\<close> of
  \<^verbatim>\<open>CreateTexture\<close> has a default branch for every other value of the enumeration;
  \<open>Undefined\<close> stands for such a value.
\<close>

datatype TextureType =
  Undefined | Texture1D | Texture2D | Texture3D | TextureCube
  | Texture1DArray | Texture2DArray | TextureCubeArray

type_synonym TextureFormat = nat
type_synonym DXGI_FORMAT = nat

text \<open>
  The fields of \<^verbatim>\<open>BufferDescriptor\<close> that the translation functions read. The
  storage type of a storage buffer is only passed on to \<^verbatim>\<open>IsStructuredBuffer\<close> and
  \<^verbatim>\<open>IsByteAddressBuffer\<close>, so it stays a type parameter.
\<close>

record 'st BufferDescriptor =
  bindFlags :: long
  cpuAccessFlags :: long
  miscFlags :: long
  storageBuffer_storageType :: 'st

text \<open>
  \<^verbatim>\<open>TextureDescriptor\<close> is declared in a header that is not among the sources; the
  record has the members the sources use (the flag translation reads the type and the
  flags, texture creation the type, the format and the union). \<^verbatim>\<open>texture1DDesc\<close>, \<^verbatim>\<open>texture2DDesc\<close>,
  \<^verbatim>\<open>texture3DDesc\<close> and \<^verbatim>\<open>textureCubeDesc\<close> are the members of one anonymous union,
  and the sources rely on their sharing storage: \<^verbatim>\<open>CreateTexture\<close> writes
  \<^verbatim>\<open>textureCubeDesc.layers\<close> and \<^verbatim>\<open>BuildGenericTexture2D\<close> reads the value back as
  \<^verbatim>\<open>texture2DDesc.layers\<close>; \<^verbatim>\<open>QueryTextureDescriptor\<close> writes \<^verbatim>\<open>texture2DDesc.layers\<close>
  and then divides \<^verbatim>\<open>textureCubeDesc.layers\<close>. The union is therefore the three 32-bit
  cells it occupies, and each member is a view of them:
  \<^verbatim>\<open>texture1DDesc { int width; unsigned int layers; }\<close>,
  \<^verbatim>\<open>texture2DDesc { int width; int height; unsigned int layers; }\<close>,
  \<^verbatim>\<open>texture3DDesc { int width; int height; int depth; }\<close>,
  \<^verbatim>\<open>textureCubeDesc { int width; int height; unsigned int layers; }\<close>.
\<close>

record TextureDescriptor =
  type :: TextureType
  format :: TextureFormat
  bindFlags :: long
  cpuAccessFlags :: long
  cell0 :: UINT
  cell1 :: UINT
  cell2 :: UINT

definition texture1DDesc_width :: "TextureDescriptor \<Rightarrow> UINT" where
  "texture1DDesc_width d = cell0 d"
definition texture1DDesc_layers :: "TextureDescriptor \<Rightarrow> UINT" where
  "texture1DDesc_layers d = cell1 d"
definition texture2DDesc_width :: "TextureDescriptor \<Rightarrow> UINT" where
  "texture2DDesc_width d = cell0 d"
definition texture2DDesc_height :: "TextureDescriptor \<Rightarrow> UINT" where
  "texture2DDesc_height d = cell1 d"
definition texture2DDesc_layers :: "TextureDescriptor \<Rightarrow> UINT" where
  "texture2DDesc_layers d = cell2 d"
definition texture3DDesc_width :: "TextureDescriptor \<Rightarrow> UINT" where
  "texture3DDesc_width d = cell0 d"
definition texture3DDesc_height :: "TextureDescriptor \<Rightarrow> UINT" where
  "texture3DDesc_height d = cell1 d"
definition texture3DDesc_depth :: "TextureDescriptor \<Rightarrow> UINT" where
  "texture3DDesc_depth d = cell2 d"
definition textureCubeDesc_width :: "TextureDescriptor \<Rightarrow> UINT" where
  "textureCubeDesc_width d = cell0 d"
definition textureCubeDesc_height :: "TextureDescriptor \<Rightarrow> UINT" where
  "textureCubeDesc_height d = cell1 d"
definition textureCubeDesc_layers :: "TextureDescriptor \<Rightarrow> UINT" where
  "textureCubeDesc_layers d = cell2 d"

text \<open>Assignments to union members.\<close>

definition set_texture1DDesc_width :: "UINT \<Rightarrow> TextureDescriptor \<Rightarrow> TextureDescriptor" where
  "set_texture1DDesc_width v d = d\<lparr>cell0 := v\<rparr>"
definition set_texture1DDesc_layers :: "UINT \<Rightarrow> TextureDescriptor \<Rightarrow> TextureDescriptor" where
  "set_texture1DDesc_layers v d = d\<lparr>cell1 := v\<rparr>"
definition set_texture2DDesc_width :: "UINT \<Rightarrow> TextureDescriptor \<Rightarrow> TextureDescriptor" where
  "set_texture2DDesc_width v d = d\<lparr>cell0 := v\<rparr>"
definition set_texture2DDesc_height :: "UINT \<Rightarrow> TextureDescriptor \<Rightarrow> TextureDescriptor" where
  "set_texture2DDesc_height v d = d\<lparr>cell1 := v\<rparr>"
definition set_texture2DDesc_layers :: "UINT \<Rightarrow> TextureDescriptor \<Rightarrow> TextureDescriptor" where
  "set_texture2DDesc_layers v d = d\<lparr>cell2 := v\<rparr>"
definition set_texture3DDesc_width :: "UINT \<Rightarrow> TextureDescriptor \<Rightarrow> TextureDescriptor" where
  "set_texture3DDesc_width v d = d\<lparr>cell0 := v\<rparr>"
definition set_texture3DDesc_height :: "UINT \<Rightarrow> TextureDescriptor \<Rightarrow> TextureDescriptor" where
  "set_texture3DDesc_height v d = d\<lparr>cell1 := v\<rparr>"
definition set_texture3DDesc_depth :: "UINT \<Rightarrow> TextureDescriptor \<Rightarrow> TextureDescriptor" where
  "set_texture3DDesc_depth v d = d\<lparr>cell2 := v\<rparr>"
definition set_textureCubeDesc_layers :: "UINT \<Rightarrow> TextureDescriptor \<Rightarrow> TextureDescriptor" where
  "set_textureCubeDesc_layers v d = d\<lparr>cell2 := v\<rparr>"

subsection \<open>D3D11\_BIND\_FLAG\<close>

definition DXGetBufferBindFlags :: "long \<Rightarrow> UINT" where
  "DXGetBufferBindFlags bind_flags =
    (let flagsD3D = 0;
         flagsD3D = (if bind_flags AND VertexBuffer \<noteq> 0
                     then flagsD3D OR D3D11_BIND_VERTEX_BUFFER else flagsD3D);
         flagsD3D = (if bind_flags AND IndexBuffer \<noteq> 0
                     then flagsD3D OR D3D11_BIND_INDEX_BUFFER else flagsD3D);
         flagsD3D = (if bind_flags AND ConstantBuffer \<noteq> 0
                     then flagsD3D OR D3D11_BIND_CONSTANT_BUFFER else flagsD3D);
         flagsD3D = (if bind_flags AND StreamOutputBuffer \<noteq> 0
                     then flagsD3D OR D3D11_BIND_STREAM_OUTPUT else flagsD3D);
         flagsD3D = (if bind_flags AND SampleBuffer \<noteq> 0
                     then flagsD3D OR D3D11_BIND_SHADER_RESOURCE else flagsD3D);
         flagsD3D = (if bind_flags AND RWStorageBuffer \<noteq> 0
                     then flagsD3D OR D3D11_BIND_UNORDERED_ACCESS else flagsD3D)
     in flagsD3D)"

definition DXGetTextureBindFlags ::
  "(TextureDescriptor \<Rightarrow> bool) \<Rightarrow> TextureDescriptor \<Rightarrow> UINT" where
  "DXGetTextureBindFlags IsMipMappedTexture desc =
    (let flagsD3D = 0;
         hasMipMaps = IsMipMappedTexture desc;
         flagsD3D = (if bindFlags desc AND DepthStencilAttachment \<noteq> 0
                     then flagsD3D OR D3D11_BIND_DEPTH_STENCIL
                     else if hasMipMaps \<or> bindFlags desc AND ColorAttachment \<noteq> 0
                     then flagsD3D OR D3D11_BIND_RENDER_TARGET else flagsD3D);
         flagsD3D = (if hasMipMaps \<or> bindFlags desc AND SampleBuffer \<noteq> 0
                     then flagsD3D OR D3D11_BIND_SHADER_RESOURCE else flagsD3D);
         flagsD3D = (if bindFlags desc AND RWStorageBuffer \<noteq> 0
                     then flagsD3D OR D3D11_BIND_UNORDERED_ACCESS else flagsD3D)
     in flagsD3D)"

subsection \<open>D3D11\_CPU\_ACCESS\_FLAG\<close>

definition DXGetCPUAccessFlagsForMiscFlags :: "long \<Rightarrow> UINT" where
  "DXGetCPUAccessFlagsForMiscFlags misc_flags =
    (let flagsD3D = 0;
         flagsD3D = (if misc_flags AND DynamicUsage \<noteq> 0
                     then flagsD3D OR D3D11_CPU_ACCESS_WRITE else flagsD3D)
     in flagsD3D)"

definition DXGetCPUAccessFlags :: "long \<Rightarrow> UINT" where
  "DXGetCPUAccessFlags cpu_access_flags =
    (let flagsD3D = 0;
         flagsD3D = (if cpu_access_flags AND CPUAccessFlags_Read \<noteq> 0
                     then flagsD3D OR D3D11_CPU_ACCESS_READ else flagsD3D);
         flagsD3D = (if cpu_access_flags AND CPUAccessFlags_Write \<noteq> 0
                     then flagsD3D OR D3D11_CPU_ACCESS_WRITE else flagsD3D)
     in flagsD3D)"

subsection \<open>D3D11\_RESOURCE\_MISC\_FLAG\<close>

definition DXGetBufferMiscFlags ::
  "('st \<Rightarrow> bool) \<Rightarrow> ('st \<Rightarrow> bool) \<Rightarrow> 'st BufferDescriptor \<Rightarrow> UINT" where
  "DXGetBufferMiscFlags IsStructuredBuffer IsByteAddressBuffer desc =
    (let flagsD3D = 0;
         flagsD3D = (if BufferDescriptor.bindFlags desc AND IndirectBuffer \<noteq> 0
                     then flagsD3D OR D3D11_RESOURCE_MISC_DRAWINDIRECT_ARGS else flagsD3D);
         flagsD3D = (if BufferDescriptor.bindFlags desc AND (SampleBuffer OR RWStorageBuffer) \<noteq> 0
                     then (if IsStructuredBuffer (storageBuffer_storageType desc)
                           then flagsD3D OR D3D11_RESOURCE_MISC_BUFFER_STRUCTURED
                           else if IsByteAddressBuffer (storageBuffer_storageType desc)
                           then flagsD3D OR D3D11_RESOURCE_MISC_BUFFER_ALLOW_RAW_VIEWS
                           else flagsD3D)
                     else flagsD3D)
     in flagsD3D)"

text \<open>
  \<^verbatim>\<open>IsMipMappedTexture\<close> and \<^verbatim>\<open>IsCubeTexture\<close> are defined outside the sources:
  they are parameters of the functions that call them.
\<close>

definition DXGetTextureMiscFlags ::
  "(TextureDescriptor \<Rightarrow> bool) \<Rightarrow> (TextureType \<Rightarrow> bool)
    \<Rightarrow> TextureDescriptor \<Rightarrow> UINT" where
  "DXGetTextureMiscFlags IsMipMappedTexture IsCubeTexture desc =
    (let flagsD3D = 0;
         flagsD3D = (if IsMipMappedTexture desc
                        \<and> bindFlags desc AND DepthStencilAttachment = 0
                     then flagsD3D OR D3D11_RESOURCE_MISC_GENERATE_MIPS else flagsD3D);
         flagsD3D = (if IsCubeTexture (type desc)
                     then flagsD3D OR D3D11_RESOURCE_MISC_TEXTURECUBE else flagsD3D)
     in flagsD3D)"

subsection \<open>D3D11\_USAGE\<close>

definition DXGetBufferUsage :: "'st BufferDescriptor \<Rightarrow> D3D11_USAGE" where
  "DXGetBufferUsage desc =
    (if BufferDescriptor.bindFlags desc AND RWStorageBuffer = 0 \<and> miscFlags desc AND DynamicUsage \<noteq> 0
     then D3D11_USAGE_DYNAMIC
     else D3D11_USAGE_DEFAULT)"

definition DXGetCPUAccessBufferUsage :: "'st BufferDescriptor \<Rightarrow> D3D11_USAGE" where
  "DXGetCPUAccessBufferUsage desc =
    (if BufferDescriptor.cpuAccessFlags desc AND CPUAccessFlags_Read \<noteq> 0 then D3D11_USAGE_STAGING
     else if BufferDescriptor.cpuAccessFlags desc AND CPUAccessFlags_Write \<noteq> 0 then D3D11_USAGE_DYNAMIC
     else D3D11_USAGE_DEFAULT)"

definition DXGetTextureUsage :: "TextureDescriptor \<Rightarrow> D3D11_USAGE" where
  "DXGetTextureUsage desc =
    (if cpuAccessFlags desc AND CPUAccessFlags_Read \<noteq> 0 then D3D11_USAGE_STAGING
     else if cpuAccessFlags desc AND CPUAccessFlags_Write \<noteq> 0 then D3D11_USAGE_DYNAMIC
     else D3D11_USAGE_DEFAULT)"

section \<open>D3D11RenderSystem\_Textures.cpp: texture creation, query and update\<close>

subsection \<open>Native descriptors\<close>

record D3D11_TEXTURE1D_DESC =
  Width :: UINT
  MipLevels :: UINT
  ArraySize :: UINT
  Format :: DXGI_FORMAT
  Usage :: D3D11_USAGE
  BindFlags :: UINT
  CPUAccessFlags :: UINT
  MiscFlags :: UINT

record D3D11_TEXTURE2D_DESC =
  Width :: UINT
  Height :: UINT
  MipLevels :: UINT
  ArraySize :: UINT
  Format :: DXGI_FORMAT
  SampleDesc_Count :: UINT
  SampleDesc_Quality :: UINT
  Usage :: D3D11_USAGE
  BindFlags :: UINT
  CPUAccessFlags :: UINT
  MiscFlags :: UINT

record D3D11_TEXTURE3D_DESC =
  Width :: UINT
  Height :: UINT
  Depth :: UINT
  MipLevels :: UINT
  Format :: DXGI_FORMAT
  Usage :: D3D11_USAGE
  BindFlags :: UINT
  CPUAccessFlags :: UINT
  MiscFlags :: UINT

record D3D11_BOX =
  box_left :: UINT
  box_top :: UINT
  box_front :: UINT
  box_right :: UINT
  box_bottom :: UINT
  box_back :: UINT

text \<open>The constructor of \<^verbatim>\<open>CD3D11_BOX\<close> (d3d11.h) stores its six arguments in order.\<close>

definition CD3D11_BOX :: "UINT \<Rightarrow> UINT \<Rightarrow> UINT \<Rightarrow> UINT \<Rightarrow> UINT \<Rightarrow> UINT \<Rightarrow> D3D11_BOX" where
  "CD3D11_BOX l t f r b k =
    \<lparr>box_left = l, box_top = t, box_front = f,
     box_right = r, box_bottom = b, box_back = k\<rparr>"

text \<open>
  A hardware texture is one of the three native resources; it answers \<^verbatim>\<open>GetType\<close> with
  its dimension and \<^verbatim>\<open>GetDesc\<close> with the descriptor it holds.
\<close>

datatype D3D11HardwareTexture =
  tex1D D3D11_TEXTURE1D_DESC
  | tex2D D3D11_TEXTURE2D_DESC
  | tex3D D3D11_TEXTURE3D_DESC

text \<open>
  \<^verbatim>\<open>D3D11Texture\<close>: the texture type stored by \<^verbatim>\<open>SetType\<close> and the hardware texture.
  \<^verbatim>\<open>D3D11Texture::CreateTexture1D/2D/3D\<close> are defined outside the sources; they hand the
  native descriptor to the device, and the texture holds the resource created from it.
\<close>

record D3D11Texture =
  GetType :: TextureType
  GetHardwareTexture :: D3D11HardwareTexture

text \<open>
  A call of \<^verbatim>\<open>D3D11Texture::UpdateSubresource\<close>, the only effect of the update functions:
  MIP level, array layer, destination box and the image passed through.
\<close>

record 'img UpdateSubresource =
  mipSlice :: UINT
  arraySlice :: UINT
  dstBox :: D3D11_BOX
  image_desc :: 'img

subsection \<open>Update regions\<close>

record Vector3i =
  x :: UINT
  y :: UINT
  z :: UINT

text \<open>The default constructor of \<^verbatim>\<open>Gs::Vector3i\<close> sets every component to zero.\<close>

definition Vector3i_default :: Vector3i where
  "Vector3i_default = \<lparr>x = 0, y = 0, z = 0\<rparr>"

text \<open>
  \<^verbatim>\<open>SubTextureDescriptor\<close> is declared outside the sources, too. \<^verbatim>\<open>WriteTexture\<close> reads
  exactly one member of its union, the one that belongs to the texture type, so each
  member is a record of its own here. \<^verbatim>\<open>cubeFaceOffset\<close> is an enumerator, read through
  \<^verbatim>\<open>static_cast<int>\<close>: the field holds that integer.
\<close>

record SubTexture1DDescriptor =
  x :: UINT
  layerOffset :: UINT
  width :: UINT
  layers :: UINT

record SubTexture2DDescriptor =
  x :: UINT
  y :: UINT
  layerOffset :: UINT
  width :: UINT
  height :: UINT
  layers :: UINT

record SubTexture3DDescriptor =
  x :: UINT
  y :: UINT
  z :: UINT
  width :: UINT
  height :: UINT
  depth :: UINT

record SubTextureCubeDescriptor =
  x :: UINT
  y :: UINT
  layerOffset :: UINT
  width :: UINT
  height :: UINT
  cubeFaces :: UINT
  cubeFaceOffset :: UINT

record SubTextureDescriptor =
  mipLevel :: UINT
  texture1DDesc :: SubTexture1DDescriptor
  texture2DDesc :: SubTexture2DDescriptor
  texture3DDesc :: SubTexture3DDescriptor
  textureCubeDesc :: SubTextureCubeDescriptor

subsection \<open>Private functions\<close>

text \<open>
  The three builders fill in the native descriptor, create the resource from it and, when
  an image is given, upload it. They return the hardware texture and the upload, if any.
  \<^verbatim>\<open>D3D11Types::Map\<close> is defined outside the sources and is a parameter.
\<close>

definition BuildGenericTexture1D ::
  "(TextureFormat \<Rightarrow> DXGI_FORMAT) \<Rightarrow> TextureDescriptor \<Rightarrow> 'img option \<Rightarrow> UINT \<Rightarrow> UINT
    \<Rightarrow> D3D11HardwareTexture \<times> 'img UpdateSubresource option" where
  "BuildGenericTexture1D Map descD3D imageDesc cpuAccess misc =
    (let texDesc = \<lparr>
           D3D11_TEXTURE1D_DESC.Width = texture1DDesc_width descD3D,
           MipLevels = 0,
           ArraySize = texture1DDesc_layers descD3D,
           Format = Map (format descD3D),
           Usage = D3D11_USAGE_DEFAULT,
           BindFlags = D3D11_BIND_SHADER_RESOURCE OR D3D11_BIND_RENDER_TARGET,
           CPUAccessFlags = cpuAccess,
           MiscFlags = misc\<rparr>
     in (tex1D texDesc,
         case imageDesc of
           Some img \<Rightarrow> Some \<lparr>mipSlice = 0, arraySlice = 0,
             dstBox = CD3D11_BOX 0 0 0
               (texture1DDesc_width descD3D) (texture1DDesc_layers descD3D) 1,
             image_desc = img\<rparr>
         | None \<Rightarrow> None))"

definition BuildGenericTexture2D ::
  "(TextureFormat \<Rightarrow> DXGI_FORMAT) \<Rightarrow> TextureDescriptor \<Rightarrow> 'img option \<Rightarrow> UINT \<Rightarrow> UINT
    \<Rightarrow> D3D11HardwareTexture \<times> 'img UpdateSubresource option" where
  "BuildGenericTexture2D Map descD3D imageDesc cpuAccess misc =
    (let texDesc = \<lparr>
           D3D11_TEXTURE2D_DESC.Width = texture2DDesc_width descD3D,
           Height = texture2DDesc_height descD3D,
           MipLevels = 0,
           ArraySize = texture2DDesc_layers descD3D,
           Format = Map (format descD3D),
           SampleDesc_Count = 1,
           SampleDesc_Quality = 0,
           Usage = D3D11_USAGE_DEFAULT,
           BindFlags = D3D11_BIND_SHADER_RESOURCE OR D3D11_BIND_RENDER_TARGET,
           CPUAccessFlags = cpuAccess,
           MiscFlags = misc\<rparr>
     in (tex2D texDesc,
         case imageDesc of
           Some img \<Rightarrow> Some \<lparr>mipSlice = 0, arraySlice = 0,
             dstBox = CD3D11_BOX 0 0 0
               (texture2DDesc_width descD3D) (texture2DDesc_height descD3D)
               (texture2DDesc_layers descD3D),
             image_desc = img\<rparr>
         | None \<Rightarrow> None))"

definition BuildGenericTexture3D ::
  "(TextureFormat \<Rightarrow> DXGI_FORMAT) \<Rightarrow> TextureDescriptor \<Rightarrow> 'img option \<Rightarrow> UINT \<Rightarrow> UINT
    \<Rightarrow> D3D11HardwareTexture \<times> 'img UpdateSubresource option" where
  "BuildGenericTexture3D Map descD3D imageDesc cpuAccess misc =
    (let texDesc = \<lparr>
           D3D11_TEXTURE3D_DESC.Width = texture3DDesc_width descD3D,
           Height = texture3DDesc_height descD3D,
           Depth = texture3DDesc_depth descD3D,
           MipLevels = 0,
           Format = Map (format descD3D),
           Usage = D3D11_USAGE_DEFAULT,
           BindFlags = D3D11_BIND_SHADER_RESOURCE OR D3D11_BIND_RENDER_TARGET,
           CPUAccessFlags = cpuAccess,
           MiscFlags = misc\<rparr>
     in (tex3D texDesc,
         case imageDesc of
           Some img \<Rightarrow> Some \<lparr>mipSlice = 0, arraySlice = 0,
             dstBox = CD3D11_BOX 0 0 0
               (texture3DDesc_width descD3D) (texture3DDesc_height descD3D)
               (texture3DDesc_depth descD3D),
             image_desc = img\<rparr>
         | None \<Rightarrow> None))"

definition UpdateGenericTexture ::
  "UINT \<Rightarrow> UINT \<Rightarrow> Vector3i \<Rightarrow> Vector3i \<Rightarrow> 'img \<Rightarrow> 'img UpdateSubresource" where
  "UpdateGenericTexture mip layer position size' img =
    \<lparr>mipSlice = mip, arraySlice = layer,
     dstBox = CD3D11_BOX
       (Vector3i.x position) (Vector3i.y position) (Vector3i.z position)
       (Vector3i.x position + Vector3i.x size') (Vector3i.y position + Vector3i.y size')
       (Vector3i.z position + Vector3i.z size'),
     image_desc = img\<rparr>"

subsection \<open>Textures\<close>

text \<open>The first \<^verbatim>\<open>switch\<close> of \<^verbatim>\<open>CreateTexture\<close>: "Modify number of layers".\<close>

definition CreateTexture_layers :: "TextureDescriptor \<Rightarrow> TextureDescriptor" where
  "CreateTexture_layers descD3D =
    (case type descD3D of
       Texture1D \<Rightarrow> set_texture1DDesc_layers 1 descD3D
     | Texture2D \<Rightarrow> set_texture2DDesc_layers 1 descD3D
     | TextureCube \<Rightarrow> set_textureCubeDesc_layers 6 descD3D
     | TextureCubeArray \<Rightarrow>
         set_textureCubeDesc_layers (textureCubeDesc_layers descD3D * 6) descD3D
     | _ \<Rightarrow> descD3D)"

definition CreateTexture ::
  "(TextureFormat \<Rightarrow> DXGI_FORMAT) \<Rightarrow> TextureDescriptor \<Rightarrow> 'img option
    \<Rightarrow> error + D3D11Texture \<times> 'img UpdateSubresource option" where
  "CreateTexture Map textureDesc imageDesc =
    (let descD3D = CreateTexture_layers textureDesc;
         texture = (\<lambda>(hwTex, upload).
           Inr (\<lparr>GetType = type textureDesc, GetHardwareTexture = hwTex\<rparr>, upload))
     in case type descD3D of
          Texture1D \<Rightarrow>
            texture (BuildGenericTexture1D Map descD3D imageDesc 0 D3D11_RESOURCE_MISC_GENERATE_MIPS)
        | Texture1DArray \<Rightarrow>
            texture (BuildGenericTexture1D Map descD3D imageDesc 0 D3D11_RESOURCE_MISC_GENERATE_MIPS)
        | Texture2D \<Rightarrow>
            texture (BuildGenericTexture2D Map descD3D imageDesc 0 D3D11_RESOURCE_MISC_GENERATE_MIPS)
        | Texture2DArray \<Rightarrow>
            texture (BuildGenericTexture2D Map descD3D imageDesc 0 D3D11_RESOURCE_MISC_GENERATE_MIPS)
        | Texture3D \<Rightarrow>
            texture (BuildGenericTexture3D Map descD3D imageDesc 0 D3D11_RESOURCE_MISC_GENERATE_MIPS)
        | TextureCube \<Rightarrow>
            texture (BuildGenericTexture2D Map descD3D imageDesc 0
              (D3D11_RESOURCE_MISC_GENERATE_MIPS OR D3D11_RESOURCE_MISC_TEXTURECUBE))
        | TextureCubeArray \<Rightarrow>
            texture (BuildGenericTexture2D Map descD3D imageDesc 0
              (D3D11_RESOURCE_MISC_GENERATE_MIPS OR D3D11_RESOURCE_MISC_TEXTURECUBE))
        | Undefined \<Rightarrow>
            Inl (invalid_argument ''failed to create texture with invalid texture type''))"

text \<open>
  \<^verbatim>\<open>QueryTextureDescriptor\<close> starts from a default-constructed descriptor; the
  constructor is declared outside the sources, so the value it leaves is the parameter
  \<open>texDesc0\<close>. \<^verbatim>\<open>D3D11Types::Unmap\<close> is a parameter as well.
\<close>

definition QueryTextureDescriptor ::
  "(DXGI_FORMAT \<Rightarrow> TextureFormat) \<Rightarrow> TextureDescriptor \<Rightarrow> D3D11Texture \<Rightarrow> TextureDescriptor" where
  "QueryTextureDescriptor Unmap texDesc0 texture =
    (let texDesc = texDesc0\<lparr>type := GetType texture\<rparr>
     in case GetHardwareTexture texture of
          tex1D desc \<Rightarrow>
            (let texDesc = texDesc\<lparr>format := Unmap (D3D11_TEXTURE1D_DESC.Format desc)\<rparr>;
                 texDesc = set_texture1DDesc_width (D3D11_TEXTURE1D_DESC.Width desc) texDesc;
                 texDesc = set_texture1DDesc_layers (D3D11_TEXTURE1D_DESC.ArraySize desc) texDesc
             in texDesc)
        | tex2D desc \<Rightarrow>
            (let texDesc = texDesc\<lparr>format := Unmap (D3D11_TEXTURE2D_DESC.Format desc)\<rparr>;
                 texDesc = set_texture2DDesc_width (D3D11_TEXTURE2D_DESC.Width desc) texDesc;
                 texDesc = set_texture2DDesc_height (D3D11_TEXTURE2D_DESC.Height desc) texDesc;
                 texDesc = set_texture2DDesc_layers (D3D11_TEXTURE2D_DESC.ArraySize desc) texDesc
             in if type texDesc = TextureCube \<or> type texDesc = TextureCubeArray
                then set_textureCubeDesc_layers (textureCubeDesc_layers texDesc div 6) texDesc
                else texDesc)
        | tex3D desc \<Rightarrow>
            (let texDesc = texDesc\<lparr>format := Unmap (D3D11_TEXTURE3D_DESC.Format desc)\<rparr>;
                 texDesc = set_texture3DDesc_width (D3D11_TEXTURE3D_DESC.Width desc) texDesc;
                 texDesc = set_texture3DDesc_height (D3D11_TEXTURE3D_DESC.Height desc) texDesc;
                 texDesc = set_texture3DDesc_depth (D3D11_TEXTURE3D_DESC.Depth desc) texDesc
             in texDesc))"

text \<open>
  \<^verbatim>\<open>WriteTexture\<close>: the \<^verbatim>\<open>switch\<close> that determines the update region has no default
  branch, so any other texture type leaves position and size as constructed.
\<close>

definition WriteTexture_region :: "TextureType \<Rightarrow> SubTextureDescriptor \<Rightarrow> Vector3i \<times> Vector3i" where
  "WriteTexture_region texType subTextureDesc =
    (let position = Vector3i_default; size' = Vector3i_default
     in case texType of
          Texture1D \<Rightarrow>
            (let d = texture1DDesc subTextureDesc
             in (position\<lparr>Vector3i.x := SubTexture1DDescriptor.x d\<rparr>,
                 size'\<lparr>Vector3i.x := SubTexture1DDescriptor.width d,
                      Vector3i.y := 1, Vector3i.z := 1\<rparr>))
        | Texture2D \<Rightarrow>
            (let d = texture2DDesc subTextureDesc
             in (position\<lparr>Vector3i.x := SubTexture2DDescriptor.x d,
                          Vector3i.y := SubTexture2DDescriptor.y d\<rparr>,
                 size'\<lparr>Vector3i.x := SubTexture2DDescriptor.width d,
                      Vector3i.y := SubTexture2DDescriptor.height d, Vector3i.z := 1\<rparr>))
        | Texture3D \<Rightarrow>
            (let d = texture3DDesc subTextureDesc
             in (position\<lparr>Vector3i.x := SubTexture3DDescriptor.x d,
                          Vector3i.y := SubTexture3DDescriptor.y d,
                          Vector3i.z := SubTexture3DDescriptor.z d\<rparr>,
                 size'\<lparr>Vector3i.x := SubTexture3DDescriptor.width d,
                      Vector3i.y := SubTexture3DDescriptor.height d,
                      Vector3i.z := SubTexture3DDescriptor.depth d\<rparr>))
        | TextureCube \<Rightarrow>
            (let d = textureCubeDesc subTextureDesc
             in (position\<lparr>Vector3i.x := SubTextureCubeDescriptor.x d,
                          Vector3i.y := SubTextureCubeDescriptor.y d,
                          Vector3i.z := cubeFaceOffset d\<rparr>,
                 size'\<lparr>Vector3i.x := SubTextureCubeDescriptor.width d,
                      Vector3i.y := SubTextureCubeDescriptor.height d, Vector3i.z := 1\<rparr>))
        | Texture1DArray \<Rightarrow>
            (let d = texture1DDesc subTextureDesc
             in (position\<lparr>Vector3i.x := SubTexture1DDescriptor.x d,
                          Vector3i.y := SubTexture1DDescriptor.layerOffset d,
                          Vector3i.z := 0\<rparr>,
                 size'\<lparr>Vector3i.x := SubTexture1DDescriptor.width d,
                      Vector3i.y := SubTexture1DDescriptor.layers d, Vector3i.z := 1\<rparr>))
        | Texture2DArray \<Rightarrow>
            (let d = texture2DDesc subTextureDesc
             in (position\<lparr>Vector3i.x := SubTexture2DDescriptor.x d,
                          Vector3i.y := SubTexture2DDescriptor.y d,
                          Vector3i.z := SubTexture2DDescriptor.layerOffset d\<rparr>,
                 size'\<lparr>Vector3i.x := SubTexture2DDescriptor.width d,
                      Vector3i.y := SubTexture2DDescriptor.height d,
                      Vector3i.z := SubTexture2DDescriptor.layers d\<rparr>))
        | TextureCubeArray \<Rightarrow>
            (let d = textureCubeDesc subTextureDesc
             in (position\<lparr>Vector3i.x := SubTextureCubeDescriptor.x d,
                          Vector3i.y := SubTextureCubeDescriptor.y d,
                          Vector3i.z := SubTextureCubeDescriptor.layerOffset d * 6
                                        + cubeFaceOffset d\<rparr>,
                 size'\<lparr>Vector3i.x := SubTextureCubeDescriptor.width d,
                      Vector3i.y := SubTextureCubeDescriptor.height d,
                      Vector3i.z := cubeFaces d\<rparr>))
        | Undefined \<Rightarrow> (position, size'))"

definition WriteTexture ::
  "D3D11Texture \<Rightarrow> SubTextureDescriptor \<Rightarrow> 'img \<Rightarrow> 'img UpdateSubresource" where
  "WriteTexture texture subTextureDesc img =
    (let (position, size') = WriteTexture_region (GetType texture) subTextureDesc
     in UpdateGenericTexture (mipLevel subTextureDesc) 0 position size' img)"

section \<open>D3D12RenderSystem.cpp: device creation\<close>

datatype D3D_FEATURE_LEVEL =
  D3D_FEATURE_LEVEL_9_1 | D3D_FEATURE_LEVEL_9_2 | D3D_FEATURE_LEVEL_9_3
  | D3D_FEATURE_LEVEL_10_0 | D3D_FEATURE_LEVEL_10_1
  | D3D_FEATURE_LEVEL_11_0 | D3D_FEATURE_LEVEL_11_1
  | D3D_FEATURE_LEVEL_12_0 | D3D_FEATURE_LEVEL_12_1

text \<open>The values of the enumerators (d3dcommon.h); a higher level has a greater value.\<close>

fun D3D_FEATURE_LEVEL_value :: "D3D_FEATURE_LEVEL \<Rightarrow> nat" where
  "D3D_FEATURE_LEVEL_value D3D_FEATURE_LEVEL_9_1 = 0x9100"
| "D3D_FEATURE_LEVEL_value D3D_FEATURE_LEVEL_9_2 = 0x9200"
| "D3D_FEATURE_LEVEL_value D3D_FEATURE_LEVEL_9_3 = 0x9300"
| "D3D_FEATURE_LEVEL_value D3D_FEATURE_LEVEL_10_0 = 0xa000"
| "D3D_FEATURE_LEVEL_value D3D_FEATURE_LEVEL_10_1 = 0xa100"
| "D3D_FEATURE_LEVEL_value D3D_FEATURE_LEVEL_11_0 = 0xb000"
| "D3D_FEATURE_LEVEL_value D3D_FEATURE_LEVEL_11_1 = 0xb100"
| "D3D_FEATURE_LEVEL_value D3D_FEATURE_LEVEL_12_0 = 0xc000"
| "D3D_FEATURE_LEVEL_value D3D_FEATURE_LEVEL_12_1 = 0xc100"

text \<open>\<^verbatim>\<open>HRESULT\<close> is a signed 32-bit code; \<^verbatim>\<open>FAILED(hr)\<close> is \<^verbatim>\<open>hr < 0\<close> (winerror.h).\<close>

type_synonym HRESULT = "32 word"

definition FAILED :: "HRESULT \<Rightarrow> bool" where
  "FAILED hr = (sint hr < 0)"

text \<open>Pointers to native objects: \<open>None\<close> is the null pointer.\<close>

type_synonym IDXGIAdapter = nat
type_synonym ID3D12Device = nat

text \<open>
  The native functions that device creation calls. \<open>D3D12CreateDevice\<close> answers with
  the result code and the pointer it stores through its last argument;
  \<open>EnumWarpAdapter\<close> is the pointer that \<^verbatim>\<open>IDXGIFactory4::EnumWarpAdapter\<close> leaves in
  \<^verbatim>\<open>adapter\<close>, the software adapter.
\<close>

record D3D12 =
  D3D12CreateDevice :: "IDXGIAdapter option \<Rightarrow> D3D_FEATURE_LEVEL \<Rightarrow> HRESULT \<times> ID3D12Device option"
  EnumWarpAdapter :: "IDXGIAdapter option"

text \<open>
  The members of \<^verbatim>\<open>D3D12RenderSystem\<close> that device creation writes, and the calls of
  \<^verbatim>\<open>D3D12CreateDevice\<close> made so far, in order, as adapter and feature level. A member
  \<^verbatim>\<open>name_\<close> of a C++ class is the field \<open>m_name\<close> of its record.
\<close>

record D3D12RenderSystem =
  m_device :: "ID3D12Device option"
  m_featureLevel :: D3D_FEATURE_LEVEL
  D3D12CreateDevice_calls :: "(IDXGIAdapter option \<times> D3D_FEATURE_LEVEL) list"

definition GetFeatureLevels :: "D3D_FEATURE_LEVEL list" where
  "GetFeatureLevels =
    [D3D_FEATURE_LEVEL_12_1, D3D_FEATURE_LEVEL_12_0,
     D3D_FEATURE_LEVEL_11_1, D3D_FEATURE_LEVEL_11_0,
     D3D_FEATURE_LEVEL_10_1, D3D_FEATURE_LEVEL_10_0,
     D3D_FEATURE_LEVEL_9_3, D3D_FEATURE_LEVEL_9_2, D3D_FEATURE_LEVEL_9_1]"

text \<open>
  Modelled from the spec: \<^verbatim>\<open>DXThrowIfFailed\<close> is defined outside the sources. The spec
  makes the failure of device creation a fatal error; as its name and its uses after every
  native call say, the function throws exactly when the result code is a failure.
\<close>

definition DXThrowIfFailed :: "HRESULT \<Rightarrow> string \<Rightarrow> error + unit" where
  "DXThrowIfFailed hr info = (if FAILED hr then Inl (runtime_error info) else Inr ())"

text \<open>
  \<^verbatim>\<open>bool CreateDevice(HRESULT& hr, IDXGIAdapter* adapter, const std::vector<D3D_FEATURE_LEVEL>&
  featureLevels)\<close>: the loop over the feature levels. It returns its result together with
  \<open>hr\<close> and the render system.
\<close>

fun CreateDevice_adapter ::
  "D3D12 \<Rightarrow> IDXGIAdapter option \<Rightarrow> D3D_FEATURE_LEVEL list \<Rightarrow> HRESULT \<Rightarrow> D3D12RenderSystem
    \<Rightarrow> bool \<times> HRESULT \<times> D3D12RenderSystem" where
  "CreateDevice_adapter env adapter [] hr this = (False, hr, this)"
| "CreateDevice_adapter env adapter (level # featureLevels) hr this =
    (let (hr, device) = D3D12CreateDevice env adapter level;
         this = this\<lparr>m_device := device,
           D3D12CreateDevice_calls := D3D12CreateDevice_calls this @ [(adapter, level)]\<rparr>
     in if \<not> FAILED hr
        then (True, hr, this\<lparr>m_featureLevel := level\<rparr>)
        else CreateDevice_adapter env adapter featureLevels hr this)"

definition CreateDevice :: "D3D12 \<Rightarrow> D3D12RenderSystem \<Rightarrow> error + D3D12RenderSystem" where
  "CreateDevice env this =
    (let adapter = None;
         featureLevels = GetFeatureLevels;
         hr = 0;
         (created, hr, this) = CreateDevice_adapter env adapter featureLevels hr this
     in if \<not> created
        then (let adapter = EnumWarpAdapter env;
                  (created, hr, this) = CreateDevice_adapter env adapter featureLevels hr this
              in if \<not> created
                 then (case DXThrowIfFailed hr ''failed to create D3D12 device'' of
                         Inl e \<Rightarrow> Inl e
                       | Inr _ \<Rightarrow> Inr this)
                 else Inr this)
        else Inr this)"

section \<open>Win32GLContext.cpp: OpenGL context creation on Win32\<close>

subsection \<open>State\<close>

text \<open>Handles are numbers; 0 is the null handle.\<close>

type_synonym HGLRC = nat
type_synonym HDC = nat
type_synonym DWORD = nat

datatype OpenGLVersion = OpenGL_Latest | OpenGL_Version int

text \<open>
  The members of \<^verbatim>\<open>RenderContextDescriptor\<close> that context creation uses.
  \<^verbatim>\<open>multiSampling.samples\<close> is unsigned; the only arithmetic on it is a decrement of a
  positive value, so it is a natural number.
\<close>

record RenderContextDescriptor =
  multiSampling_enabled :: bool
  multiSampling_samples :: nat
  profileOpenGL_extProfile :: bool
  profileOpenGL_coreProfile :: bool
  profileOpenGL_version :: OpenGLVersion
  vsync_enabled :: bool
  vsync_interval :: nat
  videoMode_colorDepth :: int

record GLPlatformContext =
  hDC :: HDC
  hGLRC :: HGLRC
  pixelFormat :: int
  pixelFormatsMS :: "int list"

text \<open>
  What context creation does besides changing its members and asking the window system:
  the lines it writes to the log and the native calls whose result it ignores or that the
  properties below speak about.
\<close>

datatype event =
    StdErr string
  | StdOut_reduced_multi_samples nat nat
  | glEnable_GL_MULTISAMPLE
  | glDisable_GL_MULTISAMPLE
  | Window_Recreate
  | Call_wglDeleteContext HGLRC
  | Call_wglShareLists HGLRC HGLRC
  | Call_wglSwapIntervalEXT int

record Win32GLContext =
  m_desc :: RenderContextDescriptor
  m_context :: GLPlatformContext
  m_hasSharedContext :: bool
  events :: "event list"

definition emit :: "event \<Rightarrow> Win32GLContext \<Rightarrow> Win32GLContext" where
  "emit e this = this\<lparr>events := events this @ [e]\<rparr>"

subsection \<open>The window system\<close>

text \<open>
  The same native function may answer differently each time it is called, so the
  functions that are called at several places of \<^verbatim>\<open>CreateContext\<close> take the place of
  the call as an argument.
\<close>

datatype site =
    StandardContext
  | OldStandardContext
  | AntiAliasedContext
  | ExtendedContext
  | FinalContext

text \<open>
  \<open>ChoosePixelFormat\<close> and \<open>SetPixelFormat\<close> get the device context and the colour bits
  of the one format descriptor they are called with. \<open>LoadPixelFormatProcs\<close>,
  \<open>LoadCreateContextProcs\<close> and \<open>LoadSwapIntervalProcs\<close> are the values of
  \<^verbatim>\<open>wglChoosePixelFormatARB || LoadPixelFormatProcs()\<close> and its two siblings: whether the
  extension function is there. \<open>wglChoosePixelFormatARB\<close> gets the three attributes that
  vary (colour bits, sample buffers, samples) and answers with its result and the formats it
  found; \<open>wglCreateContextAttribsARB\<close> answers with the context and the value of
  \<^verbatim>\<open>GetLastError()\<close> after the call. \<open>maxNumPixelFormatsMS\<close> is the constant
  \<^verbatim>\<open>GLPlatformContext::maxNumPixelFormatsMS\<close>, declared outside the sources.
\<close>

record Win32 =
  GetDC :: "site \<Rightarrow> HDC"
  ChoosePixelFormat :: "site \<Rightarrow> HDC \<Rightarrow> int \<Rightarrow> int"
  SetPixelFormat :: "site \<Rightarrow> HDC \<Rightarrow> int \<Rightarrow> int \<Rightarrow> bool"
  maxNumPixelFormatsMS :: nat
  wglCreateContext :: "site \<Rightarrow> HDC \<Rightarrow> HGLRC"
  wglCreateContextAttribsARB :: "HDC \<Rightarrow> HGLRC \<Rightarrow> int list \<Rightarrow> HGLRC \<times> DWORD"
  wglMakeCurrent :: "site \<Rightarrow> HDC \<Rightarrow> HGLRC \<Rightarrow> bool"
  wglDeleteContext :: "site \<Rightarrow> HGLRC \<Rightarrow> bool"
  wglShareLists :: "HGLRC \<Rightarrow> HGLRC \<Rightarrow> bool"
  LoadPixelFormatProcs :: bool
  wglChoosePixelFormatARB :: "HDC \<Rightarrow> int \<Rightarrow> bool \<Rightarrow> nat \<Rightarrow> bool \<times> int list"
  LoadCreateContextProcs :: bool
  LoadSwapIntervalProcs :: bool
  wglSwapIntervalEXT :: "int \<Rightarrow> bool"

text \<open>Constants of wglext.h.\<close>

definition WGL_CONTEXT_MAJOR_VERSION_ARB :: int where "WGL_CONTEXT_MAJOR_VERSION_ARB = 0x2091"
definition WGL_CONTEXT_MINOR_VERSION_ARB :: int where "WGL_CONTEXT_MINOR_VERSION_ARB = 0x2092"
definition WGL_CONTEXT_PROFILE_MASK_ARB :: int where "WGL_CONTEXT_PROFILE_MASK_ARB = 0x9126"
definition WGL_CONTEXT_CORE_PROFILE_BIT_ARB :: int where "WGL_CONTEXT_CORE_PROFILE_BIT_ARB = 0x1"
definition WGL_CONTEXT_COMPATIBILITY_PROFILE_BIT_ARB :: int where
  "WGL_CONTEXT_COMPATIBILITY_PROFILE_BIT_ARB = 0x2"
definition ERROR_INVALID_VERSION_ARB :: DWORD where "ERROR_INVALID_VERSION_ARB = 0x2095"
definition ERROR_INVALID_PROFILE_ARB :: DWORD where "ERROR_INVALID_PROFILE_ARB = 0x2096"

subsection \<open>Private functions\<close>

definition SetSwapInterval :: "Win32 \<Rightarrow> int \<Rightarrow> Win32GLContext \<Rightarrow> bool \<times> Win32GLContext" where
  "SetSwapInterval env interval this =
    (if LoadSwapIntervalProcs env
     then (wglSwapIntervalEXT env interval, emit (Call_wglSwapIntervalEXT interval) this)
     else (False, this))"

definition ErrAntiAliasingNotSupported :: "Win32GLContext \<Rightarrow> Win32GLContext" where
  "ErrAntiAliasingNotSupported this =
    emit (StdErr ''multi-sample anti-aliasing is not supported'') this"

text \<open>
  \<^verbatim>\<open>DeleteGLContext(HGLRC& renderContext)\<close> returns the new value of the handle it was
  given by reference.
\<close>

definition DeleteGLContext :: "Win32 \<Rightarrow> site \<Rightarrow> HGLRC \<Rightarrow> Win32GLContext \<Rightarrow> HGLRC \<times> Win32GLContext" where
  "DeleteGLContext env s renderContext this =
    (let this = emit (Call_wglDeleteContext renderContext) this
     in if \<not> wglDeleteContext env s renderContext
        then (renderContext, emit (StdErr ''failed to delete OpenGL render context'') this)
        else (0, this))"

definition CreateStdContextProfile :: "Win32 \<Rightarrow> site \<Rightarrow> Win32GLContext \<Rightarrow> HGLRC" where
  "CreateStdContextProfile env s this = wglCreateContext env s (hDC (m_context this))"

text \<open>C++ division and remainder of integers truncate towards zero.\<close>

definition cdiv :: "int \<Rightarrow> int \<Rightarrow> int" where
  "cdiv a b = (if (a < 0) = (b < 0) then \<bar>a\<bar> div \<bar>b\<bar> else - (\<bar>a\<bar> div \<bar>b\<bar>))"

definition cmod :: "int \<Rightarrow> int \<Rightarrow> int" where
  "cmod a b = a - b * cdiv a b"

definition ConvertGLVersion :: "OpenGLVersion \<Rightarrow> int \<times> int" where
  "ConvertGLVersion version =
    (case version of
       OpenGL_Latest \<Rightarrow> (4, 5)
     | OpenGL_Version ver \<Rightarrow> (cdiv ver 100, cdiv (cmod ver 100) 10))"

text \<open>\<^verbatim>\<open>CreateExtContextProfile\<close>, as compiled without \<^verbatim>\<open>LLGL_DEBUG\<close>.\<close>

definition CreateExtContextProfile ::
  "Win32 \<Rightarrow> HGLRC \<Rightarrow> Win32GLContext \<Rightarrow> HGLRC \<times> Win32GLContext" where
  "CreateExtContextProfile env sharedGLRC this =
    (let useCoreProfile = profileOpenGL_coreProfile (m_desc this);
         (major, minor) = ConvertGLVersion (profileOpenGL_version (m_desc this));
         attribList =
           [WGL_CONTEXT_MAJOR_VERSION_ARB, major,
            WGL_CONTEXT_MINOR_VERSION_ARB, minor,
            WGL_CONTEXT_PROFILE_MASK_ARB,
              (if useCoreProfile then WGL_CONTEXT_CORE_PROFILE_BIT_ARB
               else WGL_CONTEXT_COMPATIBILITY_PROFILE_BIT_ARB),
            0, 0];
         (renderContext, err) =
           wglCreateContextAttribsARB env (hDC (m_context this)) sharedGLRC attribList
     in if err = ERROR_INVALID_VERSION_ARB
        then (0, emit (StdErr ''invalid version for OpenGL profile'') this)
        else if err = ERROR_INVALID_PROFILE_ARB
        then (0, emit (StdErr ''invalid OpenGL profile'') this)
        else (renderContext, this))"

definition CreateGLContext ::
  "Win32 \<Rightarrow> site \<Rightarrow> bool \<Rightarrow> Win32GLContext option \<Rightarrow> Win32GLContext \<Rightarrow> HGLRC \<times> Win32GLContext" where
  "CreateGLContext env s useExtProfile sharedContext this =
    (let sharedGLRC = (case sharedContext of None \<Rightarrow> 0 | Some sc \<Rightarrow> hGLRC (m_context sc));
         (renderContext, this) =
           (if sharedContext = None \<or> sharedGLRC = 0
            then (let this = this\<lparr>m_hasSharedContext := False\<rparr>
                  in if useExtProfile
                     then CreateExtContextProfile env sharedGLRC this
                     else (CreateStdContextProfile env s this, this))
            else (sharedGLRC, this\<lparr>m_hasSharedContext := True\<rparr>))
     in if renderContext = 0
        then (0, this)
        else if \<not> wglMakeCurrent env s (hDC (m_context this)) renderContext
        then (let this = emit
                    (StdErr ''failed to active OpenGL render context (wglMakeCurrent)'') this;
                  (renderContext, this) = DeleteGLContext env s renderContext this
              in (0, this))
        else (renderContext, this))"

text \<open>
  The loop of \<^verbatim>\<open>SelectPixelFormat\<close>, with its local variables as arguments. The loop
  need not end: when a format that is not the standard one cannot be set and no further
  anti-aliasing format is taken, the next round is the same. And
  \<^verbatim>\<open>context_.pixelFormatsMS[msPixelFormatIndex++]\<close> reads the vector below
  \<^verbatim>\<open>maxNumPixelFormatsMS\<close> whatever its size is; beyond the size the read has no defined
  behaviour. In both cases the loop has no result, which is the value \<open>None\<close>. The colour
  depth is passed as a \<^verbatim>\<open>BYTE\<close>.
\<close>

partial_function (option) SelectPixelFormat_loop ::
  "Win32 \<Rightarrow> site \<Rightarrow> bool \<Rightarrow> nat \<Rightarrow> bool \<Rightarrow> Win32GLContext
    \<Rightarrow> (error + Win32GLContext) option" where
  "SelectPixelFormat_loop env s wantAntiAliasFormat msPixelFormatIndex wasStandardFormatUsed
      this =
    (if wantAntiAliasFormat \<and> msPixelFormatIndex < maxNumPixelFormatsMS env
        \<and> length (pixelFormatsMS (m_context this)) \<le> msPixelFormatIndex
     then None
     else
       (let colorDepth = videoMode_colorDepth (m_desc this) mod 256;
            (this, msPixelFormatIndex) =
              (if wantAntiAliasFormat \<and> msPixelFormatIndex < maxNumPixelFormatsMS env
               then (this\<lparr>m_context := (m_context this)
                       \<lparr>pixelFormat :=
                          pixelFormatsMS (m_context this) ! msPixelFormatIndex\<rparr>\<rparr>,
                     msPixelFormatIndex + 1)
               else (this, msPixelFormatIndex));
            (this, wasStandardFormatUsed) =
              (if pixelFormat (m_context this) = 0
               then (let this = this\<lparr>m_context := (m_context this)
                             \<lparr>pixelFormat :=
                                ChoosePixelFormat env s (hDC (m_context this)) colorDepth\<rparr>\<rparr>;
                         this = (if wantAntiAliasFormat
                                 then ErrAntiAliasingNotSupported this else this)
                     in (this, True))
               else (this, wasStandardFormatUsed))
        in if pixelFormat (m_context this) = 0
           then Some (Inl (runtime_error ''failed to select pixel format''))
           else if \<not> SetPixelFormat env s (hDC (m_context this))
                        (pixelFormat (m_context this)) colorDepth
           then (if wasStandardFormatUsed
                 then Some (Inl (runtime_error ''failed to set pixel format''))
                 else SelectPixelFormat_loop env s wantAntiAliasFormat msPixelFormatIndex
                        wasStandardFormatUsed this)
           else Some (Inr this)))"

definition SelectPixelFormat ::
  "Win32 \<Rightarrow> site \<Rightarrow> Win32GLContext \<Rightarrow> (error + Win32GLContext) option" where
  "SelectPixelFormat env s this =
    (let wantAntiAliasFormat =
           (multiSampling_enabled (m_desc this) \<and> pixelFormatsMS (m_context this) \<noteq> [])
     in SelectPixelFormat_loop env s wantAntiAliasFormat 0 False this)"

definition SetupDeviceContextAndPixelFormat ::
  "Win32 \<Rightarrow> site \<Rightarrow> Win32GLContext \<Rightarrow> (error + Win32GLContext) option" where
  "SetupDeviceContextAndPixelFormat env s this =
    SelectPixelFormat env s (this\<lparr>m_context := (m_context this)\<lparr>hDC := GetDC env s\<rparr>\<rparr>)"

text \<open>
  The loop of \<^verbatim>\<open>SetupAntiAliasing\<close>. It is left by \<^verbatim>\<open>return false\<close> (the result is
  \<open>Some False\<close>), by \<^verbatim>\<open>break\<close> or because its condition fails (\<open>None\<close>).
\<close>

function SetupAntiAliasing_loop :: "Win32 \<Rightarrow> Win32GLContext \<Rightarrow> bool option \<times> Win32GLContext" where
  "SetupAntiAliasing_loop env this =
    (if multiSampling_samples (m_desc this) > 0
     then (let (result, formats) =
                 wglChoosePixelFormatARB env (hDC (m_context this))
                   (videoMode_colorDepth (m_desc this))
                   (multiSampling_enabled (m_desc this))
                   (multiSampling_samples (m_desc this));
               this = this\<lparr>m_context := (m_context this)\<lparr>pixelFormatsMS := formats\<rparr>\<rparr>
           in if \<not> result \<or> length formats < 1
              then (if multiSampling_samples (m_desc this) \<le> 0
                    then (Some False, this)
                    else SetupAntiAliasing_loop env
                      (this\<lparr>m_desc := (m_desc this)
                         \<lparr>multiSampling_samples := multiSampling_samples (m_desc this) - 1\<rparr>\<rparr>))
              else (None, this))
     else (None, this))"
  by pat_completeness auto
termination
  by (relation "measure (\<lambda>(env, this). multiSampling_samples (m_desc this))") auto

declare SetupAntiAliasing_loop.simps [simp del]

definition SetupAntiAliasing :: "Win32 \<Rightarrow> Win32GLContext \<Rightarrow> bool \<times> Win32GLContext" where
  "SetupAntiAliasing env this =
    (if \<not> LoadPixelFormatProcs env
     then (False, this)
     else (let queriedMultiSamples = multiSampling_samples (m_desc this)
           in case SetupAntiAliasing_loop env this of
                (Some r, this) \<Rightarrow> (r, this)
              | (None, this) \<Rightarrow>
                  (let this = (if multiSampling_samples (m_desc this) < queriedMultiSamples
                               then emit (StdOut_reduced_multi_samples queriedMultiSamples
                                      (multiSampling_samples (m_desc this))) this
                               else this);
                       this = (if multiSampling_enabled (m_desc this)
                               then emit glEnable_GL_MULTISAMPLE this
                               else emit glDisable_GL_MULTISAMPLE this)
                   in (True, this))))"

definition CopyPixelFormat :: "Win32GLContext \<Rightarrow> Win32GLContext \<Rightarrow> Win32GLContext" where
  "CopyPixelFormat sourceContext this =
    this\<lparr>m_context := (m_context this)
      \<lparr>pixelFormat := pixelFormat (m_context sourceContext),
       pixelFormatsMS := pixelFormatsMS (m_context sourceContext)\<rparr>\<rparr>"

definition RecreateWindow ::
  "Win32 \<Rightarrow> Win32GLContext \<Rightarrow> (error + Win32GLContext) option" where
  "RecreateWindow env this =
    SetupDeviceContextAndPixelFormat env AntiAliasedContext (emit Window_Recreate this)"

subsection \<open>CreateContext\<close>

text \<open>
  \<^verbatim>\<open>CreateContext\<close> is split at its comments into the steps it takes one after the
  other; the local variable \<^verbatim>\<open>stdRenderContext\<close> is passed from step to step. A step
  that sets up the pixel format has no result where \<^verbatim>\<open>SelectPixelFormat\<close> has none.
  First: copy the pixel format of a shared context, set up the device context and create
  the standard render context.
\<close>

definition CreateContext_standard ::
  "Win32 \<Rightarrow> Win32GLContext option \<Rightarrow> Win32GLContext
    \<Rightarrow> (error + HGLRC \<times> Win32GLContext) option" where
  "CreateContext_standard env sharedContext this =
    (let this = (case sharedContext of
                   Some sc \<Rightarrow> if multiSampling_enabled (m_desc this)
                              then CopyPixelFormat sc this else this
                 | None \<Rightarrow> this)
     in case SetupDeviceContextAndPixelFormat env StandardContext this of
          None \<Rightarrow> None
        | Some (Inl e) \<Rightarrow> Some (Inl e)
        | Some (Inr this) \<Rightarrow>
            (let (stdRenderContext, this) =
                   CreateGLContext env StandardContext False sharedContext this
             in if stdRenderContext = 0
                then Some (Inl (runtime_error
                  ''failed to create standard OpenGL render context''))
                else Some (Inr (stdRenderContext, this))))"

text \<open>"Check for multi-sample anti-aliasing".\<close>

definition CreateContext_antiAliasing ::
  "Win32 \<Rightarrow> Win32GLContext option \<Rightarrow> HGLRC \<Rightarrow> Win32GLContext
    \<Rightarrow> (error + HGLRC \<times> Win32GLContext) option" where
  "CreateContext_antiAliasing env sharedContext stdRenderContext this =
    (if multiSampling_enabled (m_desc this) \<and> \<not> m_hasSharedContext this
     then (case SetupAntiAliasing env this of
             (True, this) \<Rightarrow>
               (let (stdRenderContext, this) =
                      DeleteGLContext env OldStandardContext stdRenderContext this
                in case RecreateWindow env this of
                     None \<Rightarrow> None
                   | Some (Inl e) \<Rightarrow> Some (Inl e)
                   | Some (Inr this) \<Rightarrow>
                       (let (stdRenderContext, this) =
                              CreateGLContext env AntiAliasedContext False sharedContext this;
                            this = (if stdRenderContext = 0
                                    then emit (StdErr
                                      ''failed to create multi-sample anti-aliasing'') this
                                    else this)
                        in Some (Inr (stdRenderContext, this))))
           | (False, this) \<Rightarrow>
               (let this = ErrAntiAliasingNotSupported this;
                    this = this\<lparr>m_desc := (m_desc this)
                      \<lparr>multiSampling_enabled := False, multiSampling_samples := 0\<rparr>\<rparr>
                in Some (Inr (stdRenderContext, this))))
     else Some (Inr (stdRenderContext, this)))"

text \<open>"Check for extended render context"; the step starts with
  \<^verbatim>\<open>context_.hGLRC = stdRenderContext\<close>.\<close>

definition CreateContext_extended ::
  "Win32 \<Rightarrow> Win32GLContext option \<Rightarrow> HGLRC \<Rightarrow> Win32GLContext \<Rightarrow> Win32GLContext" where
  "CreateContext_extended env sharedContext stdRenderContext this =
    (let this = this\<lparr>m_context := (m_context this)\<lparr>hGLRC := stdRenderContext\<rparr>\<rparr>
     in if profileOpenGL_extProfile (m_desc this) \<and> \<not> m_hasSharedContext this
        then (if LoadCreateContextProcs env
              then (let (extRenderContext, this) =
                          CreateGLContext env ExtendedContext True sharedContext this
                    in if extRenderContext \<noteq> 0
                       then (let this = this\<lparr>m_context :=
                                    (m_context this)\<lparr>hGLRC := extRenderContext\<rparr>\<rparr>;
                                 (stdRenderContext, this) =
                                    DeleteGLContext env ExtendedContext stdRenderContext this
                             in this)
                       else (let this = emit
                                   (StdErr ''failed to create extended OpenGL profile'') this
                             in this\<lparr>m_desc := (m_desc this)
                                  \<lparr>profileOpenGL_extProfile := False\<rparr>\<rparr>))
              else (let this = emit (StdErr ''failed to select OpenGL profile'') this
                    in this\<lparr>m_desc := (m_desc this)\<lparr>profileOpenGL_extProfile := False\<rparr>\<rparr>))
        else this)"

text \<open>"Check if context creation was successful".\<close>

definition CreateContext_activate :: "Win32 \<Rightarrow> Win32GLContext \<Rightarrow> error + Win32GLContext" where
  "CreateContext_activate env this =
    (if hGLRC (m_context this) = 0
     then Inl (runtime_error ''failed to create OpenGL render context'')
     else if \<not> wglMakeCurrent env FinalContext (hDC (m_context this)) (hGLRC (m_context this))
     then Inl (runtime_error ''failed to activate OpenGL render context'')
     else Inr this)"

text \<open>"Share resources with previous render context (only for compatibility profile)".\<close>

definition CreateContext_share ::
  "Win32 \<Rightarrow> Win32GLContext option \<Rightarrow> Win32GLContext \<Rightarrow> error + Win32GLContext" where
  "CreateContext_share env sharedContext this =
    (case sharedContext of
       Some sc \<Rightarrow>
         if \<not> m_hasSharedContext this \<and> \<not> profileOpenGL_extProfile (m_desc this)
         then (let this = emit
                     (Call_wglShareLists (hGLRC (m_context sc)) (hGLRC (m_context this))) this
               in if \<not> wglShareLists env (hGLRC (m_context sc)) (hGLRC (m_context this))
                  then Inl (runtime_error
                    ''failed to share resources from OpenGL render context'')
                  else Inr this)
         else Inr this
     | None \<Rightarrow> Inr this)"

text \<open>The steps up to the activation of the final render context.\<close>

definition CreateContext_negotiate ::
  "Win32 \<Rightarrow> Win32GLContext option \<Rightarrow> Win32GLContext \<Rightarrow> (error + Win32GLContext) option" where
  "CreateContext_negotiate env sharedContext this =
    (case CreateContext_standard env sharedContext this of
       None \<Rightarrow> None
     | Some (Inl e) \<Rightarrow> Some (Inl e)
     | Some (Inr (stdRenderContext, this)) \<Rightarrow>
         (case CreateContext_antiAliasing env sharedContext stdRenderContext this of
            None \<Rightarrow> None
          | Some (Inl e) \<Rightarrow> Some (Inl e)
          | Some (Inr (stdRenderContext, this)) \<Rightarrow>
              Some (CreateContext_activate env
                (CreateContext_extended env sharedContext stdRenderContext this))))"

text \<open>
  \<^verbatim>\<open>CreateContext\<close>: its result is \<open>None\<close> when it does not return, an exception or
  the context it has created.
\<close>

definition CreateContext ::
  "Win32 \<Rightarrow> Win32GLContext option \<Rightarrow> Win32GLContext \<Rightarrow> (error + Win32GLContext) option" where
  "CreateContext env sharedContext this =
    (case CreateContext_negotiate env sharedContext this of
       None \<Rightarrow> None
     | Some (Inl e) \<Rightarrow> Some (Inl e)
     | Some (Inr this) \<Rightarrow>
         (case CreateContext_share env sharedContext this of
            Inl e \<Rightarrow> Some (Inl e)
          | Inr this \<Rightarrow>
              Some (Inr (snd (SetSwapInterval env
                (if vsync_enabled (m_desc this) then int (vsync_interval (m_desc this)) else 0)
                this)))))"

section \<open>Observations and sample inputs\<close>

text \<open>
  What \<^verbatim>\<open>CreateTexture\<close> hands to the native creation call: the array size and the
  number of MIP levels of the native descriptor. There is none when no texture is created;
  a 3D texture has no array size.
\<close>

definition CreateTexture_ArraySize ::
  "(TextureFormat \<Rightarrow> DXGI_FORMAT) \<Rightarrow> TextureDescriptor \<Rightarrow> 'img option \<Rightarrow> UINT option" where
  "CreateTexture_ArraySize Map textureDesc imageDesc =
    (case CreateTexture Map textureDesc imageDesc of
       Inl e \<Rightarrow> None
     | Inr (texture, upload) \<Rightarrow>
         (case GetHardwareTexture texture of
            tex1D desc \<Rightarrow> Some (D3D11_TEXTURE1D_DESC.ArraySize desc)
          | tex2D desc \<Rightarrow> Some (D3D11_TEXTURE2D_DESC.ArraySize desc)
          | tex3D desc \<Rightarrow> None))"

definition CreateTexture_MipLevels ::
  "(TextureFormat \<Rightarrow> DXGI_FORMAT) \<Rightarrow> TextureDescriptor \<Rightarrow> 'img option \<Rightarrow> UINT option" where
  "CreateTexture_MipLevels Map textureDesc imageDesc =
    (case CreateTexture Map textureDesc imageDesc of
       Inl e \<Rightarrow> None
     | Inr (texture, upload) \<Rightarrow>
         (case GetHardwareTexture texture of
            tex1D desc \<Rightarrow> Some (D3D11_TEXTURE1D_DESC.MipLevels desc)
          | tex2D desc \<Rightarrow> Some (D3D11_TEXTURE2D_DESC.MipLevels desc)
          | tex3D desc \<Rightarrow> Some (D3D11_TEXTURE3D_DESC.MipLevels desc)))"

text \<open>Sample descriptors.\<close>

definition texture_desc :: "TextureType \<Rightarrow> UINT \<Rightarrow> UINT \<Rightarrow> UINT \<Rightarrow> TextureDescriptor" where
  "texture_desc t c0 c1 c2 =
    \<lparr>type = t, format = 0, bindFlags = SampleBuffer, cpuAccessFlags = 0,
     cell0 = c0, cell1 = c1, cell2 = c2\<rparr>"

definition buffer_with_access :: "long \<Rightarrow> unit BufferDescriptor" where
  "buffer_with_access a =
    \<lparr>BufferDescriptor.bindFlags = VertexBuffer, BufferDescriptor.cpuAccessFlags = a,
     miscFlags = 0, storageBuffer_storageType = ()\<rparr>"

definition texture_with_access :: "long \<Rightarrow> TextureDescriptor" where
  "texture_with_access a = (texture_desc Texture2D 256 256 1)\<lparr>cpuAccessFlags := a\<rparr>"

definition texture_with_bind :: "long \<Rightarrow> TextureDescriptor" where
  "texture_with_bind f = (texture_desc Texture2D 256 256 1)\<lparr>bindFlags := f\<rparr>"

definition sub_texture_desc :: SubTextureDescriptor where
  "sub_texture_desc =
    \<lparr>mipLevel = 0,
     texture1DDesc = \<lparr>SubTexture1DDescriptor.x = 16, layerOffset = 3, width = 256, layers = 1\<rparr>,
     texture2DDesc = \<lparr>SubTexture2DDescriptor.x = 16, y = 32, layerOffset = 3,
       width = 256, height = 256, layers = 1\<rparr>,
     texture3DDesc = \<lparr>SubTexture3DDescriptor.x = 16, y = 32, z = 3,
       width = 256, height = 256, depth = 1\<rparr>,
     textureCubeDesc = \<lparr>SubTextureCubeDescriptor.x = 16, y = 32, layerOffset = 3,
       width = 256, height = 256, cubeFaces = 1, cubeFaceOffset = 4\<rparr>\<rparr>"

definition sub_texture_desc_wrap :: SubTextureDescriptor where
  "sub_texture_desc_wrap =
    sub_texture_desc\<lparr>textureCubeDesc := (textureCubeDesc sub_texture_desc)
      \<lparr>layerOffset := 715827883, cubeFaceOffset := 5\<rparr>\<rparr>"

text \<open>The six numbers of a box: its origin and its far corner.\<close>

definition box_numbers :: "D3D11_BOX \<Rightarrow> (nat \<times> nat \<times> nat) \<times> (nat \<times> nat \<times> nat)" where
  "box_numbers b =
    ((unat (box_left b), unat (box_top b), unat (box_front b)),
     (unat (box_right b), unat (box_bottom b), unat (box_back b)))"

definition native_2D_desc :: "UINT \<Rightarrow> D3D11_TEXTURE2D_DESC" where
  "native_2D_desc n =
    \<lparr>D3D11_TEXTURE2D_DESC.Width = 512, Height = 512, MipLevels = 0, ArraySize = n,
     Format = 0, SampleDesc_Count = 1, SampleDesc_Quality = 0, Usage = D3D11_USAGE_DEFAULT,
     BindFlags = D3D11_BIND_SHADER_RESOURCE OR D3D11_BIND_RENDER_TARGET,
     CPUAccessFlags = 0, MiscFlags = D3D11_RESOURCE_MISC_GENERATE_MIPS\<rparr>"

definition texture_of_type :: "TextureType \<Rightarrow> D3D11Texture" where
  "texture_of_type t = \<lparr>GetType = t, GetHardwareTexture = tex2D (native_2D_desc 12)\<rparr>"

text \<open>Creating a texture and then querying its descriptor.\<close>

definition QueryCreatedTexture ::
  "(TextureFormat \<Rightarrow> DXGI_FORMAT) \<Rightarrow> (DXGI_FORMAT \<Rightarrow> TextureFormat) \<Rightarrow> TextureDescriptor
    \<Rightarrow> TextureDescriptor \<Rightarrow> 'img option \<Rightarrow> error + TextureDescriptor" where
  "QueryCreatedTexture Map Unmap texDesc0 textureDesc imageDesc =
    (case CreateTexture Map textureDesc imageDesc of
       Inl e \<Rightarrow> Inl e
     | Inr (texture, upload) \<Rightarrow> Inr (QueryTextureDescriptor Unmap texDesc0 texture))"

text \<open>Whether \<^verbatim>\<open>D3D12CreateDevice\<close> succeeds on an adapter at a feature level.\<close>

definition device_created :: "D3D12 \<Rightarrow> IDXGIAdapter option \<Rightarrow> D3D_FEATURE_LEVEL \<Rightarrow> bool" where
  "device_created env adapter level = (\<not> FAILED (fst (D3D12CreateDevice env adapter level)))"

text \<open>
  Sample drivers: one that creates a device on the given adapter up to the given feature
  level and fails otherwise, and one that always fails. The software adapter is number 7.
\<close>

definition E_FAIL :: HRESULT where "E_FAIL = 0x80004005"
definition S_OK :: HRESULT where "S_OK = 0"

definition D3D12_upto :: "IDXGIAdapter option \<Rightarrow> D3D_FEATURE_LEVEL \<Rightarrow> D3D12" where
  "D3D12_upto a highest =
    \<lparr>D3D12CreateDevice = (\<lambda>adapter level.
        if adapter = a \<and> D3D_FEATURE_LEVEL_value level \<le> D3D_FEATURE_LEVEL_value highest
        then (S_OK, Some 1) else (E_FAIL, None)),
     EnumWarpAdapter = Some 7\<rparr>"

definition D3D12_none :: D3D12 where
  "D3D12_none =
    \<lparr>D3D12CreateDevice = (\<lambda>adapter level. (E_FAIL, None)), EnumWarpAdapter = Some 7\<rparr>"

definition D3D12RenderSystem_init :: D3D12RenderSystem where
  "D3D12RenderSystem_init =
    \<lparr>m_device = None, m_featureLevel = D3D_FEATURE_LEVEL_9_1, D3D12CreateDevice_calls = []\<rparr>"

text \<open>The calls of \<^verbatim>\<open>wglShareLists\<close> among the events of a context.\<close>

fun is_wglShareLists :: "event \<Rightarrow> bool" where
  "is_wglShareLists (Call_wglShareLists a b) = True"
| "is_wglShareLists _ = False"

definition wglShareLists_calls :: "Win32GLContext \<Rightarrow> event list" where
  "wglShareLists_calls this = filter is_wglShareLists (events this)"

text \<open>
  Whether the context passed for sharing holds a hardware context: then
  \<^verbatim>\<open>CreateGLContext\<close> reuses it, otherwise it creates one of its own.
\<close>

definition has_hardware_context :: "Win32GLContext option \<Rightarrow> bool" where
  "has_hardware_context sharedContext =
    (case sharedContext of None \<Rightarrow> False | Some sc \<Rightarrow> hGLRC (m_context sc) \<noteq> 0)"

text \<open>Whether a sample count is supported: the query succeeds and finds a format.\<close>

definition samples_supported :: "Win32 \<Rightarrow> Win32GLContext \<Rightarrow> nat \<Rightarrow> bool" where
  "samples_supported env this n =
    (case wglChoosePixelFormatARB env (hDC (m_context this))
            (videoMode_colorDepth (m_desc this)) (multiSampling_enabled (m_desc this)) n of
       (result, formats) \<Rightarrow> result \<and> length formats \<ge> 1)"

text \<open>Counting down from \<open>n\<close> to the first number that satisfies \<open>P\<close>, or to 0.\<close>

fun step_down :: "(nat \<Rightarrow> bool) \<Rightarrow> nat \<Rightarrow> nat" where
  "step_down P 0 = 0"
| "step_down P (Suc n) = (if P (Suc n) then Suc n else step_down P n)"

text \<open>
  A sample window system: every native call succeeds, the standard context is number 10
  and the anti-aliased one number 11; which sample counts are supported and whether
  \<^verbatim>\<open>wglShareLists\<close> succeeds are its parameters. And a context before creation, with
  anti-aliasing requested or not at a number of samples.
\<close>

definition Win32_sample :: "(nat \<Rightarrow> bool) \<Rightarrow> bool \<Rightarrow> Win32" where
  "Win32_sample supported share =
    \<lparr>GetDC = (\<lambda>s. 1),
     ChoosePixelFormat = (\<lambda>s dc colorDepth. 1),
     SetPixelFormat = (\<lambda>s dc f colorDepth. True),
     maxNumPixelFormatsMS = 8,
     wglCreateContext = (\<lambda>s dc. case s of AntiAliasedContext \<Rightarrow> 11 | _ \<Rightarrow> 10),
     wglCreateContextAttribsARB = (\<lambda>dc shared attribs. (20, 0)),
     wglMakeCurrent = (\<lambda>s dc rc. True),
     wglDeleteContext = (\<lambda>s rc. True),
     wglShareLists = (\<lambda>a b. share),
     LoadPixelFormatProcs = True,
     wglChoosePixelFormatARB = (\<lambda>dc colorDepth sampleBuffers samples.
       if supported samples then (True, [100 + int samples]) else (False, [])),
     LoadCreateContextProcs = True,
     LoadSwapIntervalProcs = True,
     wglSwapIntervalEXT = (\<lambda>interval. True)\<rparr>"

definition Win32GLContext_init :: "bool \<Rightarrow> nat \<Rightarrow> Win32GLContext" where
  "Win32GLContext_init aa n =
    \<lparr>m_desc = \<lparr>multiSampling_enabled = aa, multiSampling_samples = n,
        profileOpenGL_extProfile = False, profileOpenGL_coreProfile = False,
        profileOpenGL_version = OpenGL_Latest, vsync_enabled = False, vsync_interval = 1,
        videoMode_colorDepth = 32\<rparr>,
     m_context = \<lparr>hDC = 0, hGLRC = 0, pixelFormat = 0, pixelFormatsMS = []\<rparr>,
     m_hasSharedContext = False,
     events = []\<rparr>"

section \<open>Properties of the flag translation\<close>

lemmas BindFlags_defs =
  VertexBuffer_def IndexBuffer_def ConstantBuffer_def StreamOutputBuffer_def
  SampleBuffer_def RWStorageBuffer_def ColorAttachment_def DepthStencilAttachment_def
  IndirectBuffer_def

lemmas D3D11_BIND_defs =
  D3D11_BIND_VERTEX_BUFFER_def D3D11_BIND_INDEX_BUFFER_def D3D11_BIND_CONSTANT_BUFFER_def
  D3D11_BIND_SHADER_RESOURCE_def D3D11_BIND_STREAM_OUTPUT_def D3D11_BIND_RENDER_TARGET_def
  D3D11_BIND_DEPTH_STENCIL_def D3D11_BIND_UNORDERED_ACCESS_def

text \<open>
  C4. The usage of a buffer and of a texture, as selected from the CPU access flags:
  whenever read access is requested the usage is staging, whether or not write access is
  requested too; without read access, write access gives the dynamic usage; without
  either, the usage is the default. In particular the flags \<open>Read | Write\<close> select
  staging.
\<close>

theorem usage_read_precedence:
  "(BufferDescriptor.cpuAccessFlags b AND CPUAccessFlags_Read \<noteq> 0 \<longrightarrow>
      DXGetCPUAccessBufferUsage b = D3D11_USAGE_STAGING)
   \<and> (BufferDescriptor.cpuAccessFlags b AND CPUAccessFlags_Read = 0
        \<and> BufferDescriptor.cpuAccessFlags b AND CPUAccessFlags_Write \<noteq> 0 \<longrightarrow>
      DXGetCPUAccessBufferUsage b = D3D11_USAGE_DYNAMIC)
   \<and> (BufferDescriptor.cpuAccessFlags b AND CPUAccessFlags_Read = 0
        \<and> BufferDescriptor.cpuAccessFlags b AND CPUAccessFlags_Write = 0 \<longrightarrow>
      DXGetCPUAccessBufferUsage b = D3D11_USAGE_DEFAULT)
   \<and> (cpuAccessFlags t AND CPUAccessFlags_Read \<noteq> 0 \<longrightarrow>
      DXGetTextureUsage t = D3D11_USAGE_STAGING)
   \<and> (cpuAccessFlags t AND CPUAccessFlags_Read = 0
        \<and> cpuAccessFlags t AND CPUAccessFlags_Write \<noteq> 0 \<longrightarrow>
      DXGetTextureUsage t = D3D11_USAGE_DYNAMIC)
   \<and> (cpuAccessFlags t AND CPUAccessFlags_Read = 0
        \<and> cpuAccessFlags t AND CPUAccessFlags_Write = 0 \<longrightarrow>
      DXGetTextureUsage t = D3D11_USAGE_DEFAULT)
   \<and> (BufferDescriptor.cpuAccessFlags b = CPUAccessFlags_Read OR CPUAccessFlags_Write \<longrightarrow>
      DXGetCPUAccessBufferUsage b = D3D11_USAGE_STAGING)
   \<and> (cpuAccessFlags t = CPUAccessFlags_Read OR CPUAccessFlags_Write \<longrightarrow>
      DXGetTextureUsage t = D3D11_USAGE_STAGING)"
  by (simp add: DXGetCPUAccessBufferUsage_def DXGetTextureUsage_def
        CPUAccessFlags_Read_def CPUAccessFlags_Write_def)

theorem usage_read_precedence_witness:
  "DXGetCPUAccessBufferUsage (buffer_with_access (CPUAccessFlags_Read OR CPUAccessFlags_Write))
     = D3D11_USAGE_STAGING
   \<and> DXGetTextureUsage (texture_with_access (CPUAccessFlags_Read OR CPUAccessFlags_Write))
     = D3D11_USAGE_STAGING
   \<and> DXGetCPUAccessBufferUsage (buffer_with_access CPUAccessFlags_Write) = D3D11_USAGE_DYNAMIC
   \<and> DXGetTextureUsage (texture_with_access CPUAccessFlags_Write) = D3D11_USAGE_DYNAMIC
   \<and> DXGetCPUAccessBufferUsage (buffer_with_access 0) = D3D11_USAGE_DEFAULT
   \<and> DXGetTextureUsage (texture_with_access 0) = D3D11_USAGE_DEFAULT"
  using usage_read_precedence
      [of "buffer_with_access (CPUAccessFlags_Read OR CPUAccessFlags_Write)"
          "texture_with_access (CPUAccessFlags_Read OR CPUAccessFlags_Write)"]
    usage_read_precedence
      [of "buffer_with_access CPUAccessFlags_Write" "texture_with_access CPUAccessFlags_Write"]
    usage_read_precedence [of "buffer_with_access 0" "texture_with_access 0"]
  by (simp add: buffer_with_access_def texture_with_access_def texture_desc_def
        CPUAccessFlags_Read_def CPUAccessFlags_Write_def)

text \<open>
  C5. The bind flags of a buffer: each of the six native bits is set in the result exactly
  when the neutral bit it belongs to is set in the argument (vertex, index, constant,
  stream output, sample, read-write storage), and no other bit of the result is ever set;
  the six native constants are six different single bits.
  For the flags \<open>VertexBuffer | ConstantBuffer\<close> the result is the two native bits
  \<open>D3D11_BIND_VERTEX_BUFFER | D3D11_BIND_CONSTANT_BUFFER\<close> and nothing else.
\<close>

theorem DXGetBufferBindFlags_exact:
  "(DXGetBufferBindFlags bf AND D3D11_BIND_VERTEX_BUFFER \<noteq> 0) = (bf AND VertexBuffer \<noteq> 0)
   \<and> (DXGetBufferBindFlags bf AND D3D11_BIND_INDEX_BUFFER \<noteq> 0) = (bf AND IndexBuffer \<noteq> 0)
   \<and> (DXGetBufferBindFlags bf AND D3D11_BIND_CONSTANT_BUFFER \<noteq> 0) = (bf AND ConstantBuffer \<noteq> 0)
   \<and> (DXGetBufferBindFlags bf AND D3D11_BIND_STREAM_OUTPUT \<noteq> 0)
        = (bf AND StreamOutputBuffer \<noteq> 0)
   \<and> (DXGetBufferBindFlags bf AND D3D11_BIND_SHADER_RESOURCE \<noteq> 0) = (bf AND SampleBuffer \<noteq> 0)
   \<and> (DXGetBufferBindFlags bf AND D3D11_BIND_UNORDERED_ACCESS \<noteq> 0)
        = (bf AND RWStorageBuffer \<noteq> 0)
   \<and> DXGetBufferBindFlags bf AND NOT (D3D11_BIND_VERTEX_BUFFER OR D3D11_BIND_INDEX_BUFFER
         OR D3D11_BIND_CONSTANT_BUFFER OR D3D11_BIND_STREAM_OUTPUT
         OR D3D11_BIND_SHADER_RESOURCE OR D3D11_BIND_UNORDERED_ACCESS) = 0
   \<and> DXGetBufferBindFlags (VertexBuffer OR ConstantBuffer)
        = D3D11_BIND_VERTEX_BUFFER OR D3D11_BIND_CONSTANT_BUFFER
   \<and> [D3D11_BIND_VERTEX_BUFFER, D3D11_BIND_INDEX_BUFFER, D3D11_BIND_CONSTANT_BUFFER,
       D3D11_BIND_STREAM_OUTPUT, D3D11_BIND_SHADER_RESOURCE, D3D11_BIND_UNORDERED_ACCESS]
        = map (\<lambda>n. push_bit n 1) [0, 1, 2, 4, 3, 7]"
  by (simp add: DXGetBufferBindFlags_def Let_def D3D11_BIND_defs BindFlags_defs)

theorem DXGetBufferBindFlags_exact_witness:
  "DXGetBufferBindFlags (VertexBuffer OR ConstantBuffer) = 5
   \<and> DXGetBufferBindFlags (VertexBuffer OR ConstantBuffer) AND D3D11_BIND_VERTEX_BUFFER \<noteq> 0
   \<and> DXGetBufferBindFlags (VertexBuffer OR ConstantBuffer) AND D3D11_BIND_CONSTANT_BUFFER \<noteq> 0
   \<and> DXGetBufferBindFlags (VertexBuffer OR ConstantBuffer) AND D3D11_BIND_INDEX_BUFFER = 0"
  using DXGetBufferBindFlags_exact [of "VertexBuffer OR ConstantBuffer"]
  by (simp add: D3D11_BIND_defs BindFlags_defs)

text \<open>
  C6. The misc flags of a texture carry \<open>D3D11_RESOURCE_MISC_GENERATE_MIPS\<close> if and only
  if the texture is MIP-mapped and its bind flags do not contain the depth-stencil
  attachment. The function has no error result: for a MIP-mapped depth-stencil texture it
  returns flags without the bit.
\<close>

theorem DXGetTextureMiscFlags_generate_mips:
  "(DXGetTextureMiscFlags IsMipMappedTexture IsCubeTexture desc
      AND D3D11_RESOURCE_MISC_GENERATE_MIPS \<noteq> 0)
    = (IsMipMappedTexture desc \<and> bindFlags desc AND DepthStencilAttachment = 0)"
  by (simp add: DXGetTextureMiscFlags_def Let_def D3D11_RESOURCE_MISC_GENERATE_MIPS_def
        D3D11_RESOURCE_MISC_TEXTURECUBE_def)

theorem DXGetTextureMiscFlags_generate_mips_witness:
  "DXGetTextureMiscFlags (\<lambda>d. True) (\<lambda>t. False)
       (texture_with_bind (DepthStencilAttachment OR SampleBuffer))
     AND D3D11_RESOURCE_MISC_GENERATE_MIPS = 0
   \<and> DXGetTextureMiscFlags (\<lambda>d. True) (\<lambda>t. False) (texture_with_bind SampleBuffer)
     AND D3D11_RESOURCE_MISC_GENERATE_MIPS \<noteq> 0
   \<and> DXGetTextureMiscFlags (\<lambda>d. False) (\<lambda>t. False) (texture_with_bind SampleBuffer)
     AND D3D11_RESOURCE_MISC_GENERATE_MIPS = 0"
  using DXGetTextureMiscFlags_generate_mips
      [of "\<lambda>d. True" "\<lambda>t. False" "texture_with_bind (DepthStencilAttachment OR SampleBuffer)"]
    DXGetTextureMiscFlags_generate_mips
      [of "\<lambda>d. True" "\<lambda>t. False" "texture_with_bind SampleBuffer"]
    DXGetTextureMiscFlags_generate_mips
      [of "\<lambda>d. False" "\<lambda>t. False" "texture_with_bind SampleBuffer"]
  by (simp add: texture_with_bind_def texture_desc_def BindFlags_defs)

section \<open>Properties of texture creation, query and update\<close>

lemmas union_defs =
  texture1DDesc_width_def texture1DDesc_layers_def texture2DDesc_width_def
  texture2DDesc_height_def texture2DDesc_layers_def texture3DDesc_width_def
  texture3DDesc_height_def texture3DDesc_depth_def textureCubeDesc_width_def
  textureCubeDesc_height_def textureCubeDesc_layers_def
  set_texture1DDesc_width_def set_texture1DDesc_layers_def set_texture2DDesc_width_def
  set_texture2DDesc_height_def set_texture2DDesc_layers_def set_texture3DDesc_width_def
  set_texture3DDesc_height_def set_texture3DDesc_depth_def set_textureCubeDesc_layers_def

lemmas Build_defs =
  BuildGenericTexture1D_def BuildGenericTexture2D_def BuildGenericTexture3D_def

lemma CreateTexture_ArraySize_eq:
  "CreateTexture_ArraySize Map d img =
     (case type d of
        Texture1D \<Rightarrow> Some 1
      | Texture2D \<Rightarrow> Some 1
      | TextureCube \<Rightarrow> Some 6
      | TextureCubeArray \<Rightarrow> Some (6 * textureCubeDesc_layers d)
      | Texture1DArray \<Rightarrow> Some (texture1DDesc_layers d)
      | Texture2DArray \<Rightarrow> Some (texture2DDesc_layers d)
      | Texture3D \<Rightarrow> None
      | Undefined \<Rightarrow> None)"
  by (cases "type d")
     (simp_all add: CreateTexture_ArraySize_def CreateTexture_def CreateTexture_layers_def
        Build_defs union_defs Let_def)

lemma unat_times6:
  fixes n :: UINT
  assumes "unat n \<le> 715827882"
  shows "unat (6 * n) = 6 * unat n"
proof -
  have "6 * unat n < 2 ^ 32" using assms by simp
  then show ?thesis by (simp add: unat_word_ariths)
qed

text \<open>
  C1, as amended. The array size that \<^verbatim>\<open>CreateTexture\<close> passes to the native creation
  call, for every texture descriptor: 1 for a 1D and for a 2D texture, 6 for a cube texture
  whatever layer count the caller gave, and the caller's layer count unchanged for a 1D
  array and a 2D array; for a cube array with the caller's layer count \<open>N\<close> it is
  \<open>6 * N\<close> provided that \<open>6 * N\<close> fits into the 32 bits of the layer count, that is
  for \<open>N\<close> up to 715827882. The layer count is an \<^verbatim>\<open>unsigned int\<close> and
  \<^verbatim>\<open>layers *= 6\<close> is the product of that type, which is the first part of the statement.
  (A 3D texture has no array size, and for an invalid type no texture is created.)
\<close>

theorem CreateTexture_normalizes_layers:
  "CreateTexture_ArraySize Map d img =
     (case type d of
        Texture1D \<Rightarrow> Some 1
      | Texture2D \<Rightarrow> Some 1
      | TextureCube \<Rightarrow> Some 6
      | TextureCubeArray \<Rightarrow> Some (6 * textureCubeDesc_layers d)
      | Texture1DArray \<Rightarrow> Some (texture1DDesc_layers d)
      | Texture2DArray \<Rightarrow> Some (texture2DDesc_layers d)
      | Texture3D \<Rightarrow> None
      | Undefined \<Rightarrow> None)
   \<and> (type d = TextureCubeArray \<and> unat (textureCubeDesc_layers d) \<le> 715827882 \<longrightarrow>
        map_option unat (CreateTexture_ArraySize Map d img)
          = Some (6 * unat (textureCubeDesc_layers d)))"
  by (simp add: CreateTexture_ArraySize_eq unat_times6)

theorem CreateTexture_normalizes_layers_witness:
  "CreateTexture_ArraySize id (texture_desc TextureCubeArray 64 64 3) (None :: unit option)
     = Some 18
   \<and> map_option unat
       (CreateTexture_ArraySize id (texture_desc TextureCubeArray 64 64 3) (None :: unit option))
     = Some 18
   \<and> CreateTexture_ArraySize id (texture_desc TextureCube 64 64 3) (None :: unit option)
     = Some 6
   \<and> CreateTexture_ArraySize id (texture_desc Texture2D 64 64 3) (None :: unit option)
     = Some 1
   \<and> CreateTexture_ArraySize id (texture_desc Texture1D 64 3 0) (None :: unit option)
     = Some 1
   \<and> CreateTexture_ArraySize id (texture_desc Texture2DArray 64 64 3) (None :: unit option)
     = Some 3
   \<and> CreateTexture_ArraySize id (texture_desc Texture1DArray 64 3 0) (None :: unit option)
     = Some 3"
  using
    CreateTexture_normalizes_layers
      [of id "texture_desc TextureCubeArray 64 64 3" "None :: unit option"]
    CreateTexture_normalizes_layers
      [of id "texture_desc TextureCube 64 64 3" "None :: unit option"]
    CreateTexture_normalizes_layers
      [of id "texture_desc Texture2D 64 64 3" "None :: unit option"]
    CreateTexture_normalizes_layers
      [of id "texture_desc Texture1D 64 3 0" "None :: unit option"]
    CreateTexture_normalizes_layers
      [of id "texture_desc Texture2DArray 64 64 3" "None :: unit option"]
    CreateTexture_normalizes_layers
      [of id "texture_desc Texture1DArray 64 3 0" "None :: unit option"]
  by (simp add: texture_desc_def union_defs)

text \<open>
  C1 as it is stated fails: for a cube array with the caller's layer count 715827883 the
  array size passed to the native creation call is 2, since \<open>6 * 715827883\<close> is 2
  modulo \<open>2 ^ 32\<close>, and not 4294967298.
\<close>

theorem CreateTexture_layers_counterexample:
  "textureCubeDesc_layers (texture_desc TextureCubeArray 64 64 715827883) = 715827883
   \<and> CreateTexture_ArraySize id (texture_desc TextureCubeArray 64 64 715827883)
        (None :: unit option) = Some 2
   \<and> map_option unat
        (CreateTexture_ArraySize id (texture_desc TextureCubeArray 64 64 715827883)
           (None :: unit option))
      \<noteq> Some (6 * unat (textureCubeDesc_layers (texture_desc TextureCubeArray 64 64 715827883)))"
  by (simp add: CreateTexture_ArraySize_def CreateTexture_def CreateTexture_layers_def
        Build_defs union_defs Let_def texture_desc_def)

lemma unat_times6_plus:
  fixes n f :: UINT
  assumes "unat n * 6 + unat f < 2 ^ 32"
  shows "unat (n * 6 + f) = unat n * 6 + unat f"
proof -
  have "unat (n * 6) = unat n * 6"
    using assms by (simp add: unat_word_ariths)
  with assms show ?thesis
    by (simp add: unat_word_ariths)
qed

lemma unat_plus_fits:
  fixes a b :: UINT
  assumes "unat a + unat b < 2 ^ 32"
  shows "unat (a + b) = unat a + unat b"
  using assms by (simp add: unat_word_ariths)

text \<open>
  C7, as amended. For every texture and every sub-texture descriptor \<^verbatim>\<open>WriteTexture\<close>
  makes the one call of \<^verbatim>\<open>UpdateGenericTexture\<close>, for the MIP level of the descriptor
  and layer 0, with the box that the first part of the statement gives for each texture
  type from the fields of the member that belongs to the type; the sums and the product
  are those of the 32-bit fields. Whenever the region does not wrap, that is when
  \<open>x + w\<close>, \<open>y + h\<close> and \<open>z + d\<close> of the offset \<open>(x, y, z)\<close> and the extent
  \<open>(w, h, d)\<close> of the type are below \<open>2 ^ 32\<close>, the box reaches from \<open>(x, y, z)\<close> to
  \<open>(x + w, y + h, z + d)\<close> as numbers (second part). For a 2D array texture the layer
  offset is the z origin and the layer count the z extent, so that layer offset 3 with one
  layer over 256 by 256 texels gives the box from \<open>(x, y, 3)\<close> to
  \<open>(x + 256, y + 256, 4)\<close> (third part); for a cube array texture the z origin is the
  layer offset times 6 plus the index of the cube face, provided that this number is below
  \<open>2 ^ 32\<close> (fourth part).
\<close>

theorem WriteTexture_box:
  "WriteTexture texture sub img =
     \<lparr>mipSlice = mipLevel sub, arraySlice = 0,
      dstBox =
        (let d1 = texture1DDesc sub; d2 = texture2DDesc sub; d3 = texture3DDesc sub;
             dc = textureCubeDesc sub
         in case GetType texture of
              Texture1D \<Rightarrow>
                CD3D11_BOX (SubTexture1DDescriptor.x d1) 0 0
                  (SubTexture1DDescriptor.x d1 + SubTexture1DDescriptor.width d1) 1 1
            | Texture2D \<Rightarrow>
                CD3D11_BOX (SubTexture2DDescriptor.x d2) (SubTexture2DDescriptor.y d2) 0
                  (SubTexture2DDescriptor.x d2 + SubTexture2DDescriptor.width d2)
                  (SubTexture2DDescriptor.y d2 + SubTexture2DDescriptor.height d2) 1
            | Texture3D \<Rightarrow>
                CD3D11_BOX (SubTexture3DDescriptor.x d3) (SubTexture3DDescriptor.y d3)
                  (SubTexture3DDescriptor.z d3)
                  (SubTexture3DDescriptor.x d3 + SubTexture3DDescriptor.width d3)
                  (SubTexture3DDescriptor.y d3 + SubTexture3DDescriptor.height d3)
                  (SubTexture3DDescriptor.z d3 + SubTexture3DDescriptor.depth d3)
            | TextureCube \<Rightarrow>
                CD3D11_BOX (SubTextureCubeDescriptor.x dc) (SubTextureCubeDescriptor.y dc)
                  (cubeFaceOffset dc)
                  (SubTextureCubeDescriptor.x dc + SubTextureCubeDescriptor.width dc)
                  (SubTextureCubeDescriptor.y dc + SubTextureCubeDescriptor.height dc)
                  (cubeFaceOffset dc + 1)
            | Texture1DArray \<Rightarrow>
                CD3D11_BOX (SubTexture1DDescriptor.x d1) (SubTexture1DDescriptor.layerOffset d1) 0
                  (SubTexture1DDescriptor.x d1 + SubTexture1DDescriptor.width d1)
                  (SubTexture1DDescriptor.layerOffset d1 + SubTexture1DDescriptor.layers d1) 1
            | Texture2DArray \<Rightarrow>
                CD3D11_BOX (SubTexture2DDescriptor.x d2) (SubTexture2DDescriptor.y d2)
                  (SubTexture2DDescriptor.layerOffset d2)
                  (SubTexture2DDescriptor.x d2 + SubTexture2DDescriptor.width d2)
                  (SubTexture2DDescriptor.y d2 + SubTexture2DDescriptor.height d2)
                  (SubTexture2DDescriptor.layerOffset d2 + SubTexture2DDescriptor.layers d2)
            | TextureCubeArray \<Rightarrow>
                CD3D11_BOX (SubTextureCubeDescriptor.x dc) (SubTextureCubeDescriptor.y dc)
                  (SubTextureCubeDescriptor.layerOffset dc * 6 + cubeFaceOffset dc)
                  (SubTextureCubeDescriptor.x dc + SubTextureCubeDescriptor.width dc)
                  (SubTextureCubeDescriptor.y dc + SubTextureCubeDescriptor.height dc)
                  (SubTextureCubeDescriptor.layerOffset dc * 6 + cubeFaceOffset dc
                     + cubeFaces dc)
            | Undefined \<Rightarrow> CD3D11_BOX 0 0 0 0 0 0),
      image_desc = img\<rparr>
   \<and> (let d1 = texture1DDesc sub; d2 = texture2DDesc sub; d3 = texture3DDesc sub;
        dc = textureCubeDesc sub;
        ((X, Y, Z), (W, H, D)) =
          (case GetType texture of
             Texture1D \<Rightarrow>
               ((unat (SubTexture1DDescriptor.x d1), 0, 0),
                (unat (SubTexture1DDescriptor.width d1), 1, 1))
           | Texture2D \<Rightarrow>
               ((unat (SubTexture2DDescriptor.x d2), unat (SubTexture2DDescriptor.y d2), 0),
                (unat (SubTexture2DDescriptor.width d2),
                 unat (SubTexture2DDescriptor.height d2), 1))
           | Texture3D \<Rightarrow>
               ((unat (SubTexture3DDescriptor.x d3), unat (SubTexture3DDescriptor.y d3),
                 unat (SubTexture3DDescriptor.z d3)),
                (unat (SubTexture3DDescriptor.width d3),
                 unat (SubTexture3DDescriptor.height d3),
                 unat (SubTexture3DDescriptor.depth d3)))
           | TextureCube \<Rightarrow>
               ((unat (SubTextureCubeDescriptor.x dc), unat (SubTextureCubeDescriptor.y dc),
                 unat (cubeFaceOffset dc)),
                (unat (SubTextureCubeDescriptor.width dc),
                 unat (SubTextureCubeDescriptor.height dc), 1))
           | Texture1DArray \<Rightarrow>
               ((unat (SubTexture1DDescriptor.x d1),
                 unat (SubTexture1DDescriptor.layerOffset d1), 0),
                (unat (SubTexture1DDescriptor.width d1),
                 unat (SubTexture1DDescriptor.layers d1), 1))
           | Texture2DArray \<Rightarrow>
               ((unat (SubTexture2DDescriptor.x d2), unat (SubTexture2DDescriptor.y d2),
                 unat (SubTexture2DDescriptor.layerOffset d2)),
                (unat (SubTexture2DDescriptor.width d2),
                 unat (SubTexture2DDescriptor.height d2),
                 unat (SubTexture2DDescriptor.layers d2)))
           | TextureCubeArray \<Rightarrow>
               ((unat (SubTextureCubeDescriptor.x dc), unat (SubTextureCubeDescriptor.y dc),
                 unat (SubTextureCubeDescriptor.layerOffset dc) * 6
                   + unat (cubeFaceOffset dc)),
                (unat (SubTextureCubeDescriptor.width dc),
                 unat (SubTextureCubeDescriptor.height dc), unat (cubeFaces dc)))
           | Undefined \<Rightarrow> ((0, 0, 0), (0, 0, 0)))
      in X + W < 2 ^ 32 \<and> Y + H < 2 ^ 32 \<and> Z + D < 2 ^ 32 \<longrightarrow>
         box_numbers (dstBox (WriteTexture texture sub img))
           = ((X, Y, Z), (X + W, Y + H, Z + D)))
   \<and> (GetType texture = Texture2DArray
        \<and> SubTexture2DDescriptor.layerOffset (texture2DDesc sub) = 3
        \<and> SubTexture2DDescriptor.layers (texture2DDesc sub) = 1
        \<and> SubTexture2DDescriptor.width (texture2DDesc sub) = 256
        \<and> SubTexture2DDescriptor.height (texture2DDesc sub) = 256
        \<and> unat (SubTexture2DDescriptor.x (texture2DDesc sub)) + 256 < 2 ^ 32
        \<and> unat (SubTexture2DDescriptor.y (texture2DDesc sub)) + 256 < 2 ^ 32 \<longrightarrow>
        box_numbers (dstBox (WriteTexture texture sub img)) =
          ((unat (SubTexture2DDescriptor.x (texture2DDesc sub)),
            unat (SubTexture2DDescriptor.y (texture2DDesc sub)), 3),
           (unat (SubTexture2DDescriptor.x (texture2DDesc sub)) + 256,
            unat (SubTexture2DDescriptor.y (texture2DDesc sub)) + 256, 4)))
   \<and> (GetType texture = TextureCubeArray
        \<and> unat (SubTextureCubeDescriptor.layerOffset (textureCubeDesc sub)) * 6
            + unat (cubeFaceOffset (textureCubeDesc sub)) < 2 ^ 32 \<longrightarrow>
        unat (box_front (dstBox (WriteTexture texture sub img))) =
          unat (SubTextureCubeDescriptor.layerOffset (textureCubeDesc sub)) * 6
            + unat (cubeFaceOffset (textureCubeDesc sub)))"
  by (cases "GetType texture")
     (simp_all add: WriteTexture_def WriteTexture_region_def UpdateGenericTexture_def
        CD3D11_BOX_def Vector3i_default_def box_numbers_def Let_def
        unat_plus_fits unat_times6_plus)

theorem WriteTexture_box_witness:
  "box_numbers (dstBox (WriteTexture (texture_of_type Texture2DArray) sub_texture_desc ()))
     = ((16, 32, 3), (272, 288, 4))
   \<and> box_numbers (dstBox (WriteTexture (texture_of_type TextureCubeArray) sub_texture_desc ()))
     = ((16, 32, 22), (272, 288, 23))
   \<and> box_numbers (dstBox (WriteTexture (texture_of_type Texture2D) sub_texture_desc ()))
     = ((16, 32, 0), (272, 288, 1))
   \<and> box_numbers (dstBox (WriteTexture (texture_of_type Texture1DArray) sub_texture_desc ()))
     = ((16, 3, 0), (272, 4, 1))"
  using WriteTexture_box [of "texture_of_type Texture2DArray" sub_texture_desc "()"]
    WriteTexture_box [of "texture_of_type TextureCubeArray" sub_texture_desc "()"]
    WriteTexture_box [of "texture_of_type Texture2D" sub_texture_desc "()"]
    WriteTexture_box [of "texture_of_type Texture1DArray" sub_texture_desc "()"]
  by (simp add: texture_of_type_def sub_texture_desc_def WriteTexture_def
        WriteTexture_region_def UpdateGenericTexture_def CD3D11_BOX_def Vector3i_default_def
        box_numbers_def)

text \<open>
  C7 as it is stated fails: for a cube array texture, layer offset 715827883 and cube face
  index 5 the z origin of the box is 7, since \<open>715827883 * 6 + 5\<close> is 7 modulo
  \<open>2 ^ 32\<close>, and not 4294967303.
\<close>

theorem WriteTexture_box_counterexample:
  "SubTextureCubeDescriptor.layerOffset (textureCubeDesc sub_texture_desc_wrap) = 715827883
   \<and> cubeFaceOffset (textureCubeDesc sub_texture_desc_wrap) = 5
   \<and> box_front
        (dstBox (WriteTexture (texture_of_type TextureCubeArray) sub_texture_desc_wrap ())) = 7
   \<and> unat (box_front
        (dstBox (WriteTexture (texture_of_type TextureCubeArray) sub_texture_desc_wrap ())))
      \<noteq> unat (SubTextureCubeDescriptor.layerOffset (textureCubeDesc sub_texture_desc_wrap)) * 6
          + unat (cubeFaceOffset (textureCubeDesc sub_texture_desc_wrap))"
  by (simp add: texture_of_type_def sub_texture_desc_wrap_def sub_texture_desc_def
        WriteTexture_def WriteTexture_region_def UpdateGenericTexture_def CD3D11_BOX_def
        Vector3i_default_def)

text \<open>
  The number of MIP levels in the native descriptor is 0 for every texture that is created.
  The MIP chain of the resource is made by the Direct3D runtime from that descriptor, not
  by a function of the sources.
\<close>

lemma CreateTexture_MipLevels_eq:
  "CreateTexture_MipLevels Map d img = (if type d = Undefined then None else Some 0)"
  by (cases "type d")
     (simp_all add: CreateTexture_MipLevels_def CreateTexture_def CreateTexture_layers_def
        Build_defs union_defs Let_def)

lemma times6_div6:
  fixes n :: UINT
  assumes "unat n \<le> 715827882"
  shows "(n * 6) div 6 = n"
proof -
  have "unat (n * 6) = 6 * unat n"
    using unat_times6 [OF assms] by (simp add: mult.commute)
  then have "unat ((n * 6) div 6) = unat n"
    by (simp add: unat_div)
  then show ?thesis by (simp add: word_unat_eq_iff)
qed

text \<open>
  C10, as amended. For a texture of type cube or cube array that holds a native 2D
  texture, \<^verbatim>\<open>QueryTextureDescriptor\<close> reports the native array size divided by 6. A cube
  array created from a caller's layer count \<open>N\<close> is therefore queried with layer count
  \<open>N\<close> again provided that \<open>6 * N\<close> fits into the 32 bits of the layer count, that is
  for \<open>N\<close> up to 715827882; a cube texture is queried with layer count 1.
\<close>

theorem QueryTextureDescriptor_cube_layers:
  "(GetHardwareTexture texture = tex2D desc
      \<and> (GetType texture = TextureCube \<or> GetType texture = TextureCubeArray) \<longrightarrow>
      textureCubeDesc_layers (QueryTextureDescriptor Unmap texDesc0 texture)
        = D3D11_TEXTURE2D_DESC.ArraySize desc div 6)
   \<and> (type d = TextureCubeArray \<and> unat (textureCubeDesc_layers d) \<le> 715827882 \<longrightarrow>
      map_sum id textureCubeDesc_layers (QueryCreatedTexture Map Unmap texDesc0 d img)
        = Inr (textureCubeDesc_layers d))
   \<and> (type d = TextureCube \<longrightarrow>
      map_sum id textureCubeDesc_layers (QueryCreatedTexture Map Unmap texDesc0 d img) = Inr 1)"
  by (auto simp add: QueryCreatedTexture_def QueryTextureDescriptor_def CreateTexture_def
        CreateTexture_layers_def Build_defs union_defs Let_def times6_div6)

theorem QueryTextureDescriptor_cube_layers_witness:
  "textureCubeDesc_layers
     (QueryTextureDescriptor id (texture_desc Undefined 0 0 0) (texture_of_type TextureCubeArray))
     = 2
   \<and> map_sum id textureCubeDesc_layers
     (QueryCreatedTexture id id (texture_desc Undefined 0 0 0)
        (texture_desc TextureCubeArray 64 64 3) (None :: unit option)) = Inr 3
   \<and> map_sum id textureCubeDesc_layers
     (QueryCreatedTexture id id (texture_desc Undefined 0 0 0)
        (texture_desc TextureCube 64 64 3) (None :: unit option)) = Inr 1"
  using QueryTextureDescriptor_cube_layers
     [of "texture_of_type TextureCubeArray" "native_2D_desc 12" id "texture_desc Undefined 0 0 0"
         "texture_desc TextureCubeArray 64 64 3" id "None :: unit option"]
    QueryTextureDescriptor_cube_layers
     [of "texture_of_type TextureCubeArray" "native_2D_desc 12" id "texture_desc Undefined 0 0 0"
         "texture_desc TextureCube 64 64 3" id "None :: unit option"]
  by (simp add: texture_desc_def texture_of_type_def native_2D_desc_def union_defs)

text \<open>
  C10 as it is stated fails: a cube array created from the layer count 2147483649 gets the
  native array size 6, since \<open>6 * 2147483649\<close> is 6 modulo \<open>2 ^ 32\<close>, and is queried
  with layer count 1.
\<close>

theorem QueryTextureDescriptor_roundtrip_counterexample:
  "map_sum id textureCubeDesc_layers
     (QueryCreatedTexture id id (texture_desc Undefined 0 0 0)
        (texture_desc TextureCubeArray 64 64 2147483649) (None :: unit option)) = Inr 1
   \<and> CreateTexture_ArraySize id (texture_desc TextureCubeArray 64 64 2147483649)
        (None :: unit option) = Some 6
   \<and> textureCubeDesc_layers (texture_desc TextureCubeArray 64 64 2147483649) = 2147483649
   \<and> map_sum id textureCubeDesc_layers
     (QueryCreatedTexture id id (texture_desc Undefined 0 0 0)
        (texture_desc TextureCubeArray 64 64 2147483649) (None :: unit option))
      \<noteq> Inr (textureCubeDesc_layers (texture_desc TextureCubeArray 64 64 2147483649))"
  by (simp add: QueryCreatedTexture_def QueryTextureDescriptor_def CreateTexture_def
        CreateTexture_ArraySize_def
        CreateTexture_layers_def Build_defs union_defs Let_def texture_desc_def)

section \<open>Properties of device creation\<close>

lemma find_None_last: "find P xs = None \<Longrightarrow> xs \<noteq> [] \<Longrightarrow> \<not> P (last xs)"
  by (induction xs) (auto split: if_splits)

text \<open>
  The loop over the feature levels stops at the first level at which the device is created;
  when there is none it has tried every level and holds the result of the last call.
\<close>

lemma CreateDevice_adapter_find:
  "CreateDevice_adapter env a ls hr this =
    (case find (device_created env a) ls of
       Some l \<Rightarrow>
         (True, fst (D3D12CreateDevice env a l),
          this\<lparr>m_device := snd (D3D12CreateDevice env a l), m_featureLevel := l,
            D3D12CreateDevice_calls := D3D12CreateDevice_calls this
              @ map (Pair a) (takeWhile (Not \<circ> device_created env a) ls @ [l])\<rparr>)
     | None \<Rightarrow>
         (False,
          (if ls = [] then hr else fst (D3D12CreateDevice env a (last ls))),
          this\<lparr>m_device :=
              (if ls = [] then m_device this else snd (D3D12CreateDevice env a (last ls))),
            D3D12CreateDevice_calls := D3D12CreateDevice_calls this @ map (Pair a) ls\<rparr>))"
proof (induction ls arbitrary: hr this)
  case Nil
  then show ?case by simp
next
  case (Cons l ls)
  show ?case
  proof (cases "device_created env a l")
    case True
    then show ?thesis
      by (auto simp add: device_created_def Let_def split: prod.splits)
  next
    case False
    then show ?thesis
      by (auto simp add: Cons.IH device_created_def Let_def split: prod.splits option.splits)
  qed
qed

lemma GetFeatureLevels_last: "last GetFeatureLevels = D3D_FEATURE_LEVEL_9_1"
  and GetFeatureLevels_nonempty: "GetFeatureLevels \<noteq> []"
  by (simp_all add: GetFeatureLevels_def)

text \<open>
  C3. The list of feature levels is ordered from the highest to the lowest. If the device
  can be created on the hardware adapter (the null adapter) at some level of the list,
  \<^verbatim>\<open>CreateDevice\<close> ends with the first such level recorded, having called
  \<^verbatim>\<open>D3D12CreateDevice\<close> on the hardware adapter only, for the levels before it and for
  it. Otherwise it has called every level on the hardware adapter and goes through the same
  list on the software adapter, again up to the first level that succeeds. If no level
  succeeds on either adapter, the result is the exception "failed to create D3D12 device"
  and no render system.
\<close>

theorem CreateDevice_fallback:
  "CreateDevice env this =
    (case find (device_created env None) GetFeatureLevels of
       Some l \<Rightarrow>
         Inr (this\<lparr>m_device := snd (D3D12CreateDevice env None l), m_featureLevel := l,
           D3D12CreateDevice_calls := D3D12CreateDevice_calls this
             @ map (Pair None)
                 (takeWhile (Not \<circ> device_created env None) GetFeatureLevels @ [l])\<rparr>)
     | None \<Rightarrow>
         (case find (device_created env (EnumWarpAdapter env)) GetFeatureLevels of
            Some l \<Rightarrow>
              Inr (this\<lparr>m_device := snd (D3D12CreateDevice env (EnumWarpAdapter env) l),
                m_featureLevel := l,
                D3D12CreateDevice_calls := D3D12CreateDevice_calls this
                  @ map (Pair None) GetFeatureLevels
                  @ map (Pair (EnumWarpAdapter env))
                      (takeWhile (Not \<circ> device_created env (EnumWarpAdapter env))
                         GetFeatureLevels @ [l])\<rparr>)
          | None \<Rightarrow> Inl (runtime_error ''failed to create D3D12 device'')))
   \<and> sorted_wrt (>) (map D3D_FEATURE_LEVEL_value GetFeatureLevels)"
proof
  show "sorted_wrt (>) (map D3D_FEATURE_LEVEL_value GetFeatureLevels)"
    by (simp add: GetFeatureLevels_def)
next
  show "CreateDevice env this =
    (case find (device_created env None) GetFeatureLevels of
       Some l \<Rightarrow>
         Inr (this\<lparr>m_device := snd (D3D12CreateDevice env None l), m_featureLevel := l,
           D3D12CreateDevice_calls := D3D12CreateDevice_calls this
             @ map (Pair None)
                 (takeWhile (Not \<circ> device_created env None) GetFeatureLevels @ [l])\<rparr>)
     | None \<Rightarrow>
         (case find (device_created env (EnumWarpAdapter env)) GetFeatureLevels of
            Some l \<Rightarrow>
              Inr (this\<lparr>m_device := snd (D3D12CreateDevice env (EnumWarpAdapter env) l),
                m_featureLevel := l,
                D3D12CreateDevice_calls := D3D12CreateDevice_calls this
                  @ map (Pair None) GetFeatureLevels
                  @ map (Pair (EnumWarpAdapter env))
                      (takeWhile (Not \<circ> device_created env (EnumWarpAdapter env))
                         GetFeatureLevels @ [l])\<rparr>)
          | None \<Rightarrow> Inl (runtime_error ''failed to create D3D12 device'')))"
  proof (cases "find (device_created env None) GetFeatureLevels")
    case (Some l)
    then show ?thesis
      by (simp add: CreateDevice_def CreateDevice_adapter_find Let_def)
  next
    case hw: None
    show ?thesis
    proof (cases "find (device_created env (EnumWarpAdapter env)) GetFeatureLevels")
      case (Some l)
      with hw show ?thesis
        by (simp add: CreateDevice_def CreateDevice_adapter_find Let_def
              GetFeatureLevels_nonempty)
    next
      case None
      from find_None_last [OF None GetFeatureLevels_nonempty]
      have "FAILED (fst (D3D12CreateDevice env (EnumWarpAdapter env) D3D_FEATURE_LEVEL_9_1))"
        by (simp add: GetFeatureLevels_last device_created_def)
      with hw None show ?thesis
        by (simp add: CreateDevice_def CreateDevice_adapter_find Let_def
              GetFeatureLevels_nonempty GetFeatureLevels_last DXThrowIfFailed_def)
    qed
  qed
qed

lemma FAILED_consts: "FAILED E_FAIL" "\<not> FAILED S_OK"
  by (simp_all add: FAILED_def E_FAIL_def S_OK_def)

theorem CreateDevice_fallback_witness:
  "CreateDevice (D3D12_upto None D3D_FEATURE_LEVEL_11_0) D3D12RenderSystem_init =
     Inr \<lparr>m_device = Some 1, m_featureLevel = D3D_FEATURE_LEVEL_11_0,
       D3D12CreateDevice_calls =
         [(None, D3D_FEATURE_LEVEL_12_1), (None, D3D_FEATURE_LEVEL_12_0),
          (None, D3D_FEATURE_LEVEL_11_1), (None, D3D_FEATURE_LEVEL_11_0)]\<rparr>
   \<and> CreateDevice (D3D12_upto (Some 7) D3D_FEATURE_LEVEL_12_0) D3D12RenderSystem_init =
     Inr \<lparr>m_device = Some 1, m_featureLevel = D3D_FEATURE_LEVEL_12_0,
       D3D12CreateDevice_calls =
         map (Pair None) GetFeatureLevels
         @ [(Some 7, D3D_FEATURE_LEVEL_12_1), (Some 7, D3D_FEATURE_LEVEL_12_0)]\<rparr>
   \<and> CreateDevice D3D12_none D3D12RenderSystem_init =
     Inl (runtime_error ''failed to create D3D12 device'')"
  using CreateDevice_fallback [of "D3D12_upto None D3D_FEATURE_LEVEL_11_0" D3D12RenderSystem_init]
    CreateDevice_fallback [of "D3D12_upto (Some 7) D3D_FEATURE_LEVEL_12_0" D3D12RenderSystem_init]
    CreateDevice_fallback [of D3D12_none D3D12RenderSystem_init]
  by (simp add: device_created_def D3D12_upto_def D3D12_none_def D3D12RenderSystem_init_def
        GetFeatureLevels_def FAILED_consts)

section \<open>Properties of OpenGL context creation\<close>

subsection \<open>What each step keeps\<close>

lemma calls_emit:
  "wglShareLists_calls (emit e this) =
     wglShareLists_calls this @ (if is_wglShareLists e then [e] else [])"
  by (simp add: wglShareLists_calls_def emit_def)

lemma shared_emit [simp]: "m_hasSharedContext (emit e this) = m_hasSharedContext this"
  and desc_emit [simp]: "m_desc (emit e this) = m_desc this"
  and context_emit [simp]: "m_context (emit e this) = m_context this"
  by (simp_all add: emit_def)

lemma calls_update [simp]:
  "wglShareLists_calls (this\<lparr>m_desc := d\<rparr>) = wglShareLists_calls this"
  "wglShareLists_calls (this\<lparr>m_context := c\<rparr>) = wglShareLists_calls this"
  "wglShareLists_calls (this\<lparr>m_hasSharedContext := b\<rparr>) = wglShareLists_calls this"
  by (simp_all add: wglShareLists_calls_def)

lemma DeleteGLContext_keeps:
  "wglShareLists_calls (snd (DeleteGLContext env s rc this)) = wglShareLists_calls this"
  "m_hasSharedContext (snd (DeleteGLContext env s rc this)) = m_hasSharedContext this"
  "m_desc (snd (DeleteGLContext env s rc this)) = m_desc this"
  "m_context (snd (DeleteGLContext env s rc this)) = m_context this"
  by (simp_all add: DeleteGLContext_def Let_def calls_emit)

lemma CreateExtContextProfile_keeps:
  "wglShareLists_calls (snd (CreateExtContextProfile env g this)) = wglShareLists_calls this"
  "m_hasSharedContext (snd (CreateExtContextProfile env g this)) = m_hasSharedContext this"
  "m_desc (snd (CreateExtContextProfile env g this)) = m_desc this"
  "m_context (snd (CreateExtContextProfile env g this)) = m_context this"
  by (simp_all add: CreateExtContextProfile_def Let_def calls_emit case_prod_beta)

lemma CreateGLContext_keeps:
  "wglShareLists_calls (snd (CreateGLContext env s ext sc this)) = wglShareLists_calls this"
  "m_desc (snd (CreateGLContext env s ext sc this)) = m_desc this"
  "m_hasSharedContext (snd (CreateGLContext env s ext sc this)) = has_hardware_context sc"
  by (simp_all add: CreateGLContext_def Let_def calls_emit DeleteGLContext_keeps
      CreateExtContextProfile_keeps has_hardware_context_def case_prod_beta
      split: option.splits)

lemma SelectPixelFormat_loop_keeps:
  assumes "SelectPixelFormat_loop env s want idx std this = Some r"
  shows "case r of
      Inl e \<Rightarrow> True
    | Inr this' \<Rightarrow>
        wglShareLists_calls this' = wglShareLists_calls this
        \<and> m_hasSharedContext this' = m_hasSharedContext this
        \<and> m_desc this' = m_desc this"
proof (rule SelectPixelFormat_loop.raw_induct
    [where P = "\<lambda>env s want idx std this r. case r of
        Inl e \<Rightarrow> True
      | Inr this' \<Rightarrow>
          wglShareLists_calls this' = wglShareLists_calls this
          \<and> m_hasSharedContext this' = m_hasSharedContext this
          \<and> m_desc this' = m_desc this", OF _ assms])
  fix loop env s want idx std this r
  assume IH: "\<And>env s want idx std this r.
      loop env s want idx std this = Some r \<Longrightarrow>
      (case r of
         Inl e \<Rightarrow> True
       | Inr this' \<Rightarrow>
           wglShareLists_calls this' = wglShareLists_calls this
           \<and> m_hasSharedContext this' = m_hasSharedContext this
           \<and> m_desc this' = m_desc this)"
    and body: "(if want \<and> idx < maxNumPixelFormatsMS env
          \<and> length (pixelFormatsMS (m_context this)) \<le> idx
       then None
       else
         (let colorDepth = videoMode_colorDepth (m_desc this) mod 256;
              (this, msPixelFormatIndex) =
                (if want \<and> idx < maxNumPixelFormatsMS env
                 then (this\<lparr>m_context := (m_context this)
                         \<lparr>pixelFormat := pixelFormatsMS (m_context this) ! idx\<rparr>\<rparr>,
                       idx + 1)
                 else (this, idx));
              (this, wasStandardFormatUsed) =
                (if pixelFormat (m_context this) = 0
                 then (let this = this\<lparr>m_context := (m_context this)
                               \<lparr>pixelFormat :=
                                  ChoosePixelFormat env s (hDC (m_context this)) colorDepth\<rparr>\<rparr>;
                           this = (if want then ErrAntiAliasingNotSupported this else this)
                       in (this, True))
                 else (this, std))
          in if pixelFormat (m_context this) = 0
             then Some (Inl (runtime_error ''failed to select pixel format''))
             else if \<not> SetPixelFormat env s (hDC (m_context this))
                          (pixelFormat (m_context this)) colorDepth
             then (if wasStandardFormatUsed
                   then Some (Inl (runtime_error ''failed to set pixel format''))
                   else loop env s want msPixelFormatIndex wasStandardFormatUsed this)
             else Some (Inr this))) = Some r"
  show "case r of
      Inl e \<Rightarrow> True
    | Inr this' \<Rightarrow>
        wglShareLists_calls this' = wglShareLists_calls this
        \<and> m_hasSharedContext this' = m_hasSharedContext this
        \<and> m_desc this' = m_desc this"
    using body
    by (auto simp add: Let_def ErrAntiAliasingNotSupported_def calls_emit
          split: if_splits sum.splits dest!: IH)
qed

lemma SetupDeviceContextAndPixelFormat_keeps:
  assumes "SetupDeviceContextAndPixelFormat env s this = Some (Inr this')"
  shows "wglShareLists_calls this' = wglShareLists_calls this"
    and "m_hasSharedContext this' = m_hasSharedContext this"
    and "m_desc this' = m_desc this"
  using SelectPixelFormat_loop_keeps
    [OF assms [unfolded SetupDeviceContextAndPixelFormat_def SelectPixelFormat_def Let_def]]
  by simp_all

lemma SetupAntiAliasing_loop_keeps:
  "fst (SetupAntiAliasing_loop env this) = None
   \<and> events (snd (SetupAntiAliasing_loop env this)) = events this
   \<and> m_hasSharedContext (snd (SetupAntiAliasing_loop env this)) = m_hasSharedContext this
   \<and> multiSampling_enabled (m_desc (snd (SetupAntiAliasing_loop env this)))
       = multiSampling_enabled (m_desc this)
   \<and> profileOpenGL_extProfile (m_desc (snd (SetupAntiAliasing_loop env this)))
       = profileOpenGL_extProfile (m_desc this)
   \<and> multiSampling_samples (m_desc (snd (SetupAntiAliasing_loop env this)))
       \<le> multiSampling_samples (m_desc this)"
proof (induction env this rule: SetupAntiAliasing_loop.induct)
  case (1 env this)
  show ?case
  proof (cases "multiSampling_samples (m_desc this) > 0")
    case False
    then show ?thesis
      by (subst (1 2 3 4 5 6) SetupAntiAliasing_loop.simps) simp
  next
    case pos: True
    obtain result formats where probe:
      "wglChoosePixelFormatARB env (hDC (m_context this)) (videoMode_colorDepth (m_desc this))
         (multiSampling_enabled (m_desc this)) (multiSampling_samples (m_desc this))
       = (result, formats)"
      by (cases "wglChoosePixelFormatARB env (hDC (m_context this))
         (videoMode_colorDepth (m_desc this)) (multiSampling_enabled (m_desc this))
         (multiSampling_samples (m_desc this))") 
    show ?thesis
    proof (cases "\<not> result \<or> length formats < 1")
      case False
      with pos probe show ?thesis
        by (subst (1 2 3 4 5 6) SetupAntiAliasing_loop.simps) (simp add: Let_def)
    next
      case True
      let ?next = "this\<lparr>m_context := (m_context this)\<lparr>pixelFormatsMS := formats\<rparr>,
          m_desc := (m_desc this)
            \<lparr>multiSampling_samples := multiSampling_samples (m_desc this) - 1\<rparr>\<rparr>"
      have step: "SetupAntiAliasing_loop env this = SetupAntiAliasing_loop env ?next"
        using pos probe True
        by (subst SetupAntiAliasing_loop.simps) (simp add: Let_def)
      have IH: "fst (SetupAntiAliasing_loop env ?next) = None
        \<and> events (snd (SetupAntiAliasing_loop env ?next)) = events ?next
        \<and> m_hasSharedContext (snd (SetupAntiAliasing_loop env ?next)) = m_hasSharedContext ?next
        \<and> multiSampling_enabled (m_desc (snd (SetupAntiAliasing_loop env ?next)))
            = multiSampling_enabled (m_desc ?next)
        \<and> profileOpenGL_extProfile (m_desc (snd (SetupAntiAliasing_loop env ?next)))
            = profileOpenGL_extProfile (m_desc ?next)
        \<and> multiSampling_samples (m_desc (snd (SetupAntiAliasing_loop env ?next)))
            \<le> multiSampling_samples (m_desc ?next)"
        using "1.IH" [OF pos probe [symmetric] refl _ _] True pos
        by simp
      moreover have "multiSampling_samples (m_desc ?next) \<le> multiSampling_samples (m_desc this)"
        by simp
      ultimately show ?thesis
        unfolding step by (simp del: One_nat_def) linarith
    qed
  qed
qed

lemma wglShareLists_calls_events:
  "events a = events b \<Longrightarrow> wglShareLists_calls a = wglShareLists_calls b"
  by (simp add: wglShareLists_calls_def)

lemma SetupAntiAliasing_result:
  "fst (SetupAntiAliasing env this) = LoadPixelFormatProcs env"
  using SetupAntiAliasing_loop_keeps [of env this]
  by (cases "SetupAntiAliasing_loop env this")
     (simp add: SetupAntiAliasing_def Let_def split: option.splits)

lemma SetupAntiAliasing_keeps:
  "wglShareLists_calls (snd (SetupAntiAliasing env this)) = wglShareLists_calls this
   \<and> m_hasSharedContext (snd (SetupAntiAliasing env this)) = m_hasSharedContext this
   \<and> multiSampling_enabled (m_desc (snd (SetupAntiAliasing env this)))
       = multiSampling_enabled (m_desc this)
   \<and> profileOpenGL_extProfile (m_desc (snd (SetupAntiAliasing env this)))
       = profileOpenGL_extProfile (m_desc this)"
  using SetupAntiAliasing_loop_keeps [of env this]
    wglShareLists_calls_events [of "snd (SetupAntiAliasing_loop env this)" this]
  by (cases "SetupAntiAliasing_loop env this")
     (simp add: SetupAntiAliasing_def Let_def calls_emit split: option.splits)

lemma RecreateWindow_keeps:
  assumes "RecreateWindow env this = Some (Inr this')"
  shows "wglShareLists_calls this' = wglShareLists_calls this"
    and "m_hasSharedContext this' = m_hasSharedContext this"
    and "m_desc this' = m_desc this"
  using SetupDeviceContextAndPixelFormat_keeps
    [OF assms [unfolded RecreateWindow_def]]
  by (simp_all add: calls_emit)

lemma CreateContext_standard_keeps:
  assumes "CreateContext_standard env sc this = Some (Inr (rc, this'))"
  shows "wglShareLists_calls this' = wglShareLists_calls this
    \<and> m_hasSharedContext this' = has_hardware_context sc
    \<and> profileOpenGL_extProfile (m_desc this') = profileOpenGL_extProfile (m_desc this)
    \<and> multiSampling_enabled (m_desc this') = multiSampling_enabled (m_desc this)"
proof -
  let ?start = "case sc of
      Some c \<Rightarrow> if multiSampling_enabled (m_desc this) then CopyPixelFormat c this else this
    | None \<Rightarrow> this"
  have start: "wglShareLists_calls ?start = wglShareLists_calls this"
    "m_desc ?start = m_desc this"
    by (simp_all add: CopyPixelFormat_def split: option.splits)
  obtain this1 where dc:
    "SetupDeviceContextAndPixelFormat env StandardContext ?start = Some (Inr this1)"
    and made: "CreateGLContext env StandardContext False sc this1 = (rc, this')"
    using assms
    by (auto simp add: CreateContext_standard_def Let_def
          split: option.splits sum.splits prod.splits if_splits)
  from made have this': "this' = snd (CreateGLContext env StandardContext False sc this1)"
    by simp
  show ?thesis
    using SetupDeviceContextAndPixelFormat_keeps [OF dc] start
    by (simp add: this' CreateGLContext_keeps)
qed

lemma CreateContext_antiAliasing_keeps:
  assumes run: "CreateContext_antiAliasing env sc rc this = Some (Inr (rc', this'))"
    and shared: "m_hasSharedContext this = has_hardware_context sc"
  shows "wglShareLists_calls this' = wglShareLists_calls this
    \<and> m_hasSharedContext this' = has_hardware_context sc
    \<and> profileOpenGL_extProfile (m_desc this') = profileOpenGL_extProfile (m_desc this)"
proof (cases "multiSampling_enabled (m_desc this) \<and> \<not> m_hasSharedContext this")
  case False
  with run shared show ?thesis
    by (auto simp add: CreateContext_antiAliasing_def)
next
  case True
  obtain ok this1 where aa: "SetupAntiAliasing env this = (ok, this1)"
    by (cases "SetupAntiAliasing env this")
  then have this1: "this1 = snd (SetupAntiAliasing env this)" by simp
  show ?thesis
  proof (cases ok)
    case False
    with run True aa
    have "this' = (ErrAntiAliasingNotSupported this1)\<lparr>m_desc := (m_desc this1)
        \<lparr>multiSampling_enabled := False, multiSampling_samples := 0\<rparr>\<rparr>"
      by (simp add: CreateContext_antiAliasing_def Let_def ErrAntiAliasingNotSupported_def)
    then show ?thesis
      using shared SetupAntiAliasing_keeps [of env this]
      by (simp add: this1 ErrAntiAliasingNotSupported_def calls_emit)
  next
    case ok: True
    let ?del = "DeleteGLContext env OldStandardContext rc this1"
    obtain this2 where win: "RecreateWindow env (snd ?del) = Some (Inr this2)"
      and fin: "this' =
        (let made = CreateGLContext env AntiAliasedContext False sc this2
         in if fst made = 0
            then emit (StdErr ''failed to create multi-sample anti-aliasing'') (snd made)
            else snd made)"
      using run True aa ok
      by (auto simp add: CreateContext_antiAliasing_def Let_def case_prod_beta
            split: option.splits sum.splits)
    show ?thesis
      using RecreateWindow_keeps [OF win] SetupAntiAliasing_keeps [of env this]
      by (simp add: fin Let_def calls_emit CreateGLContext_keeps DeleteGLContext_keeps this1)
  qed
qed

lemma CreateContext_extended_keeps:
  assumes "m_hasSharedContext this = has_hardware_context sc"
  shows "wglShareLists_calls (CreateContext_extended env sc rc this) = wglShareLists_calls this
    \<and> m_hasSharedContext (CreateContext_extended env sc rc this) = has_hardware_context sc"
  using assms
  by (simp add: CreateContext_extended_def Let_def case_prod_beta calls_emit
        CreateGLContext_keeps DeleteGLContext_keeps)

lemma CreateContext_activate_keeps:
  "CreateContext_activate env this = Inr this' \<Longrightarrow> this' = this"
  by (simp add: CreateContext_activate_def split: if_splits)

lemma CreateContext_negotiate_keeps:
  assumes "CreateContext_negotiate env sc this = Some (Inr st)"
  shows "wglShareLists_calls st = wglShareLists_calls this
    \<and> m_hasSharedContext st = has_hardware_context sc"
proof -
  obtain rc1 this1 rc2 this2 where
    std: "CreateContext_standard env sc this = Some (Inr (rc1, this1))"
    and aa: "CreateContext_antiAliasing env sc rc1 this1 = Some (Inr (rc2, this2))"
    and act: "CreateContext_activate env (CreateContext_extended env sc rc2 this2) = Inr st"
    using assms
    by (auto simp add: CreateContext_negotiate_def split: option.splits sum.splits)
  note s = CreateContext_standard_keeps [OF std]
  from s have s2: "m_hasSharedContext this1 = has_hardware_context sc" by simp
  note a = CreateContext_antiAliasing_keeps [OF aa s2]
  from a have a2: "m_hasSharedContext this2 = has_hardware_context sc" by simp
  note e = CreateContext_extended_keeps [OF a2, of env rc2]
  show ?thesis
    using CreateContext_activate_keeps [OF act] s a e by simp
qed

subsection \<open>The step-down of the sample count\<close>

lemmas CreateContext_defs =
  CreateContext_def CreateContext_negotiate_def CreateContext_share_def
  CreateContext_standard_def CreateContext_antiAliasing_def CreateContext_extended_def
  CreateContext_activate_def SetupDeviceContextAndPixelFormat_def RecreateWindow_def
  CreateGLContext_def CreateStdContextProfile_def DeleteGLContext_def SetSwapInterval_def
  SetupAntiAliasing_def ErrAntiAliasingNotSupported_def emit_def

lemma samples_supported_update [simp]:
  "samples_supported env
     (this\<lparr>m_context := (m_context this)\<lparr>pixelFormatsMS := formats\<rparr>,
           m_desc := (m_desc this)\<lparr>multiSampling_samples := n\<rparr>\<rparr>)
   = samples_supported env this"
  by (simp add: samples_supported_def fun_eq_iff)

lemma SetupAntiAliasing_loop_samples:
  "multiSampling_samples (m_desc (snd (SetupAntiAliasing_loop env this))) =
     step_down (samples_supported env this) (multiSampling_samples (m_desc this))"
proof (induction env this rule: SetupAntiAliasing_loop.induct)
  case (1 env this)
  let ?n = "multiSampling_samples (m_desc this)"
  show ?case
  proof (cases ?n)
    case 0
    then show ?thesis
      by (subst SetupAntiAliasing_loop.simps) simp
  next
    case (Suc m)
    then have pos: "?n > 0" by simp
    obtain result formats where probe:
      "wglChoosePixelFormatARB env (hDC (m_context this)) (videoMode_colorDepth (m_desc this))
         (multiSampling_enabled (m_desc this)) ?n = (result, formats)"
      by (cases "wglChoosePixelFormatARB env (hDC (m_context this))
         (videoMode_colorDepth (m_desc this)) (multiSampling_enabled (m_desc this)) ?n")
    show ?thesis
    proof (cases "\<not> result \<or> length formats < 1")
      case False
      then have sup: "samples_supported env this (Suc m)"
        using probe Suc by (cases formats) (simp_all add: samples_supported_def)
      have "multiSampling_samples (m_desc (snd (SetupAntiAliasing_loop env this))) = ?n"
        using pos probe False
        by (subst SetupAntiAliasing_loop.simps) (simp add: Let_def)
      with sup Suc show ?thesis by simp
    next
      case True
      then have nsup: "\<not> samples_supported env this (Suc m)"
        using probe Suc by (cases formats) (auto simp add: samples_supported_def)
      let ?next = "this\<lparr>m_context := (m_context this)\<lparr>pixelFormatsMS := formats\<rparr>,
          m_desc := (m_desc this)\<lparr>multiSampling_samples := ?n - 1\<rparr>\<rparr>"
      have step: "SetupAntiAliasing_loop env this = SetupAntiAliasing_loop env ?next"
        using pos probe True
        by (subst SetupAntiAliasing_loop.simps) (simp add: Let_def)
      have "multiSampling_samples (m_desc (snd (SetupAntiAliasing_loop env ?next))) =
          step_down (samples_supported env ?next) (multiSampling_samples (m_desc ?next))"
        using "1.IH" [OF pos probe [symmetric] refl _ _] True pos by simp
      then have "multiSampling_samples (m_desc (snd (SetupAntiAliasing_loop env ?next))) =
          step_down (samples_supported env this) m"
        using Suc by simp
      with nsup Suc show ?thesis
        unfolding step by simp
    qed
  qed
qed

subsection \<open>Sharing\<close>

text \<open>
  C8. When the steps of \<^verbatim>\<open>CreateContext\<close> before the sharing step fail, creation fails
  with their exception. Otherwise no call of \<^verbatim>\<open>wglShareLists\<close> has been made so far,
  and the context has a hardware context of its own exactly when the context passed for
  sharing, if any, holds none. Then: if a prior context was passed, the new context has
  its own hardware context and the extended profile is not in use, \<^verbatim>\<open>wglShareLists\<close>
  is called once, with the prior and the new render context, and when the call fails
  creation ends with the exception "failed to share resources from OpenGL render
  context"; in every other case creation goes on without any call of
  \<^verbatim>\<open>wglShareLists\<close>.
\<close>

theorem CreateContext_sharing:
  "case CreateContext_negotiate env sharedContext this of
     None \<Rightarrow> CreateContext env sharedContext this = None
   | Some (Inl e) \<Rightarrow> CreateContext env sharedContext this = Some (Inl e)
   | Some (Inr st) \<Rightarrow>
       wglShareLists_calls st = wglShareLists_calls this
       \<and> m_hasSharedContext st = has_hardware_context sharedContext
       \<and> (case sharedContext of
            Some sc \<Rightarrow>
              if \<not> m_hasSharedContext st \<and> \<not> profileOpenGL_extProfile (m_desc st)
              then (if wglShareLists env (hGLRC (m_context sc)) (hGLRC (m_context st))
                    then \<exists>st'. CreateContext env sharedContext this = Some (Inr st')
                           \<and> wglShareLists_calls st' = wglShareLists_calls this
                               @ [Call_wglShareLists (hGLRC (m_context sc)) (hGLRC (m_context st))]
                    else CreateContext env sharedContext this
                           = Some (Inl (runtime_error
                               ''failed to share resources from OpenGL render context'')))
              else \<exists>st'. CreateContext env sharedContext this = Some (Inr st')
                     \<and> wglShareLists_calls st' = wglShareLists_calls this
          | None \<Rightarrow>
              \<exists>st'. CreateContext env sharedContext this = Some (Inr st')
                \<and> wglShareLists_calls st' = wglShareLists_calls this)"
proof (cases "CreateContext_negotiate env sharedContext this")
  case None
  then show ?thesis by (simp add: CreateContext_def)
next
  case (Some r)
  show ?thesis
  proof (cases r)
    case (Inl e)
    with Some show ?thesis by (simp add: CreateContext_def)
  next
    case (Inr st)
    with Some have run: "CreateContext_negotiate env sharedContext this = Some (Inr st)"
      by simp
    note keeps = CreateContext_negotiate_keeps [OF run]
    have swap: "wglShareLists_calls (snd (SetSwapInterval env i t)) = wglShareLists_calls t"
      for i t
      by (simp add: SetSwapInterval_def calls_emit)
    show ?thesis
    proof (cases sharedContext)
      case None
      with run keeps show ?thesis
        by (simp add: CreateContext_def CreateContext_share_def swap)
    next
      case (Some sc)
      with run keeps show ?thesis
        by (simp add: CreateContext_def CreateContext_share_def Let_def swap calls_emit)
    qed
  qed
qed

text \<open>With the sample window system the format is selected in the first round.\<close>

lemma SelectPixelFormat_sample:
  "SelectPixelFormat (Win32_sample supported share) s this =
     Some (Inr (this\<lparr>m_context := (m_context this)\<lparr>pixelFormat :=
        (if multiSampling_enabled (m_desc this) \<and> pixelFormatsMS (m_context this) \<noteq> []
         then (if hd (pixelFormatsMS (m_context this)) = 0 then 1
               else hd (pixelFormatsMS (m_context this)))
         else if pixelFormat (m_context this) = 0 then 1
         else pixelFormat (m_context this))\<rparr>,
       events := events this
         @ (if multiSampling_enabled (m_desc this) \<and> pixelFormatsMS (m_context this) \<noteq> []
               \<and> hd (pixelFormatsMS (m_context this)) = 0
            then [StdErr ''multi-sample anti-aliasing is not supported''] else [])\<rparr>))"
  by (subst SelectPixelFormat_def, subst SelectPixelFormat_loop.simps)
     (cases "pixelFormatsMS (m_context this)";
      simp add: Win32_sample_def Let_def ErrAntiAliasingNotSupported_def emit_def hd_conv_nth)

lemma Win32_sample_fields:
  "GetDC (Win32_sample supported share) = (\<lambda>s. 1)"
  "wglCreateContext (Win32_sample supported share)
     = (\<lambda>s dc. case s of AntiAliasedContext \<Rightarrow> 11 | _ \<Rightarrow> 10)"
  "wglCreateContextAttribsARB (Win32_sample supported share) = (\<lambda>dc shared attribs. (20, 0))"
  "wglMakeCurrent (Win32_sample supported share) = (\<lambda>s dc rc. True)"
  "wglDeleteContext (Win32_sample supported share) = (\<lambda>s rc. True)"
  "wglShareLists (Win32_sample supported share) = (\<lambda>a b. share)"
  "LoadPixelFormatProcs (Win32_sample supported share) = True"
  "wglChoosePixelFormatARB (Win32_sample supported share)
     = (\<lambda>dc colorDepth sampleBuffers samples.
          if supported samples then (True, [100 + int samples]) else (False, []))"
  "LoadCreateContextProcs (Win32_sample supported share) = True"
  "LoadSwapIntervalProcs (Win32_sample supported share) = True"
  "wglSwapIntervalEXT (Win32_sample supported share) = (\<lambda>interval. True)"
  by (simp_all add: Win32_sample_def)

theorem CreateContext_sharing_witness:
  "CreateContext (Win32_sample (\<lambda>n. False) False)
      (Some (Win32GLContext_init False 0)) (Win32GLContext_init False 0)
     = Some (Inl (runtime_error ''failed to share resources from OpenGL render context''))
   \<and> map_option (map_sum id wglShareLists_calls)
       (CreateContext (Win32_sample (\<lambda>n. False) True)
          (Some (Win32GLContext_init False 0)) (Win32GLContext_init False 0))
     = Some (Inr [Call_wglShareLists 0 10])
   \<and> map_option (map_sum id wglShareLists_calls)
       (CreateContext (Win32_sample (\<lambda>n. False) False)
          (Some ((Win32GLContext_init False 0)
             \<lparr>m_context := \<lparr>hDC = 1, hGLRC = 5, pixelFormat = 1, pixelFormatsMS = []\<rparr>\<rparr>))
          (Win32GLContext_init False 0))
     = Some (Inr [])
   \<and> map_option (map_sum id wglShareLists_calls)
       (CreateContext (Win32_sample (\<lambda>n. False) False) None (Win32GLContext_init False 0))
     = Some (Inr [])"
  using
    CreateContext_sharing [of "Win32_sample (\<lambda>n. False) False"
      "Some (Win32GLContext_init False 0)" "Win32GLContext_init False 0"]
    CreateContext_sharing [of "Win32_sample (\<lambda>n. False) True"
      "Some (Win32GLContext_init False 0)" "Win32GLContext_init False 0"]
    CreateContext_sharing [of "Win32_sample (\<lambda>n. False) False"
      "Some ((Win32GLContext_init False 0)
             \<lparr>m_context := \<lparr>hDC = 1, hGLRC = 5, pixelFormat = 1, pixelFormatsMS = []\<rparr>\<rparr>)"
      "Win32GLContext_init False 0"]
    CreateContext_sharing [of "Win32_sample (\<lambda>n. False) False" None
      "Win32GLContext_init False 0"]
  by (simp add: CreateContext_defs SelectPixelFormat_sample Win32_sample_fields
        has_hardware_context_def wglShareLists_calls_def Win32GLContext_init_def Let_def)

subsection \<open>Anti-aliasing\<close>

text \<open>
  The loop of \<^verbatim>\<open>SetupAntiAliasing\<close> ends with the first supported sample count at or
  below the requested one, or with 0. The function returns \<open>false\<close> only when the
  extension is missing, never because of the sample count: the \<^verbatim>\<open>return false\<close>
  inside the loop stands under the loop condition \<^verbatim>\<open>samples > 0\<close> and tests
  \<^verbatim>\<open>samples <= 0\<close>.
\<close>

lemma step_down_le: "step_down P n \<le> n"
  by (induction n) auto

lemma step_down_supported: "step_down P n = 0 \<or> P (step_down P n)"
  by (induction n) auto

lemma step_down_greatest: "step_down P n < k \<Longrightarrow> k \<le> n \<Longrightarrow> \<not> P k"
proof (induction n)
  case 0
  then show ?case by simp
next
  case (Suc n)
  show ?case
  proof (cases "P (Suc n)")
    case True
    with Suc.prems show ?thesis by simp
  next
    case False
    show ?thesis
    proof (cases "k = Suc n")
      case True
      with False show ?thesis by simp
    next
      case neq: False
      with Suc.prems False have "step_down P n < k" "k \<le> n" by simp_all
      then show ?thesis by (rule Suc.IH)
    qed
  qed
qed

lemma step_down_none: "(\<And>k. 0 < k \<Longrightarrow> k \<le> n \<Longrightarrow> \<not> P k) \<Longrightarrow> step_down P n = 0"
  by (induction n) auto

lemma SetupAntiAliasing_step_down:
  assumes "LoadPixelFormatProcs env"
  shows "SetupAntiAliasing env this =
    (True,
     (let n = multiSampling_samples (m_desc this);
          m = step_down (samples_supported env this) n;
          this' = snd (SetupAntiAliasing_loop env this)
      in this'\<lparr>events := events this
           @ (if m < n then [StdOut_reduced_multi_samples n m] else [])
           @ [if multiSampling_enabled (m_desc this) then glEnable_GL_MULTISAMPLE
              else glDisable_GL_MULTISAMPLE]\<rparr>))"
  using assms SetupAntiAliasing_loop_keeps [of env this]
    SetupAntiAliasing_loop_samples [of env this]
  by (cases "SetupAntiAliasing_loop env this")
     (simp add: SetupAntiAliasing_def Let_def emit_def)

lemma SetupAntiAliasing_exhausted:
  assumes "LoadPixelFormatProcs env"
    and "\<And>k. 0 < k \<Longrightarrow> k \<le> multiSampling_samples (m_desc this)
           \<Longrightarrow> \<not> samples_supported env this k"
  shows "fst (SetupAntiAliasing env this)
    \<and> multiSampling_samples (m_desc (snd (SetupAntiAliasing env this))) = 0
    \<and> multiSampling_enabled (m_desc (snd (SetupAntiAliasing env this)))
        = multiSampling_enabled (m_desc this)"
  using SetupAntiAliasing_loop_keeps [of env this]
    SetupAntiAliasing_loop_samples [of env this]
    step_down_none [of "multiSampling_samples (m_desc this)" "samples_supported env this"]
    assms
  by (simp add: SetupAntiAliasing_step_down Let_def)

text \<open>
  Requesting 8 samples where only 4 are supported: the negotiation ends with 4 samples, the
  diagnostic about the reduction and multi-sampling enabled.
\<close>

lemma SetupAntiAliasing_scenario:
  "SetupAntiAliasing (Win32_sample (\<lambda>n. n = 4) True) (Win32GLContext_init True 8) =
     (True, (Win32GLContext_init True 4)
        \<lparr>m_context := \<lparr>hDC = 0, hGLRC = 0, pixelFormat = 0, pixelFormatsMS = [104]\<rparr>,
         events := [StdOut_reduced_multi_samples 8 4, glEnable_GL_MULTISAMPLE]\<rparr>)
   \<and> map_option (map_sum id
        (\<lambda>st. (multiSampling_enabled (m_desc st), multiSampling_samples (m_desc st),
               pixelFormat (m_context st), events st)))
        (CreateContext (Win32_sample (\<lambda>n. n = 4) True) None (Win32GLContext_init True 8))
     = Some (Inr (True, 4, 104,
         [StdOut_reduced_multi_samples 8 4, glEnable_GL_MULTISAMPLE,
          Call_wglDeleteContext 10, Window_Recreate, Call_wglSwapIntervalEXT 0]))"
  by (simp add: CreateContext_defs SelectPixelFormat_sample Win32_sample_fields
        SetupAntiAliasing_loop.simps Win32GLContext_init_def Let_def)

text \<open>
  C2 at the input where no sample count is supported (2 samples requested, the extension
  present, every query without a format): \<^verbatim>\<open>SetupAntiAliasing\<close> returns \<open>true\<close> with 0
  samples, and \<^verbatim>\<open>CreateContext\<close> ends with multi-sampling still enabled at 0 samples,
  after the diagnostic about the reduction from 2 to 0, \<^verbatim>\<open>glEnable(GL_MULTISAMPLE)\<close>
  and the recreation of the window. The branch of \<^verbatim>\<open>CreateContext\<close> that clears the flag
  is not taken.
\<close>

theorem SetupAntiAliasing_exhausted_keeps_enabled:
  "SetupAntiAliasing (Win32_sample (\<lambda>n. False) True) (Win32GLContext_init True 2) =
     (True, (Win32GLContext_init True 0)
        \<lparr>events := [StdOut_reduced_multi_samples 2 0, glEnable_GL_MULTISAMPLE]\<rparr>)
   \<and> map_option (map_sum id
        (\<lambda>st. (multiSampling_enabled (m_desc st), multiSampling_samples (m_desc st), events st)))
        (CreateContext (Win32_sample (\<lambda>n. False) True) None (Win32GLContext_init True 2))
     = Some (Inr (True, 0,
         [StdOut_reduced_multi_samples 2 0, glEnable_GL_MULTISAMPLE,
          Call_wglDeleteContext 10, Window_Recreate, Call_wglSwapIntervalEXT 0]))"
  by (simp add: CreateContext_defs SelectPixelFormat_sample Win32_sample_fields
        SetupAntiAliasing_loop.simps Win32GLContext_init_def Let_def)

theorem SetupAntiAliasing_exhausted_keeps_enabled_witness:
  "fst (SetupAntiAliasing (Win32_sample (\<lambda>n. False) True) (Win32GLContext_init True 2))
   \<and> multiSampling_enabled (m_desc (snd
        (SetupAntiAliasing (Win32_sample (\<lambda>n. False) True) (Win32GLContext_init True 2))))
   \<and> multiSampling_samples (m_desc (snd
        (SetupAntiAliasing (Win32_sample (\<lambda>n. False) True) (Win32GLContext_init True 2)))) = 0"
  using SetupAntiAliasing_exhausted_keeps_enabled
  by (simp add: Win32GLContext_init_def)

end
